theory Spec2Isabelle
  imports Complex_Main
begin

section \<open>Python values and failures\<close>

text \<open>
  The module \<open>cogent3/draw/drawable.py\<close> computes with Python numbers. Integers are
  modelled as \<open>int\<close>. In \<open>get_domain\<close> and in the two-track layout a float is the
  exact rational it stands for (\<open>rat\<close>): the numbers there are sums, differences,
  products and quotients of the arguments, and what is proved about them are relations
  of that arithmetic. The shape classes are modelled on Python's numbers themselves,
  exact \<open>int\<close>s and rounding doubles, see the section on Python numbers. A raised
  exception is the \<open>Inl\<close> branch of a sum.
\<close>

datatype error =
    ValueError
  | IndexError
  | TypeError
  | ZeroDivisionError
  | AttributeError
  | NoCoordinates

text \<open>\<open>range(n)\<close>: the integers \<open>0, ..., n - 1\<close>, empty when \<open>n \<le> 0\<close>.\<close>

definition py_range :: "int \<Rightarrow> int list" where
  "py_range n = map int [0..<nat n]"

text \<open>
  \<open>xs[i]\<close> on a list: an index from 0 up to the length reads from the front, one from
  \<open>-len(xs)\<close> up to \<open>-1\<close> reads from the back, and every other index raises IndexError.
\<close>

definition py_getitem :: "'a list \<Rightarrow> int \<Rightarrow> error + 'a" where
  "py_getitem xs i =
     (if 0 \<le> i \<and> i < int (length xs) then Inr (xs ! nat i)
      else if i < 0 \<and> - int (length xs) \<le> i then Inr (xs ! nat (int (length xs) + i))
      else Inl IndexError)"

section \<open>get_domain\<close>

text \<open>
  \<^verbatim>\<open>
  def get_domain(total, element, is_y, space=0.01):
      if total == 1:
          return [0, 1]
      if element > total - 1:
          raise ValueError(f"{element} index too big for {total}")
      per_element = 1 / total
      space = min(space / 2, per_element / 10)
      bounds = [per_element * i for i in range(total + 1)]
      domains = [
          (bounds[k] + space, bounds[k + 1] - space) for k in range(len(bounds) - 1)
      ]
      if is_y:
          element = total - element - 1
      return domains[element]
  \<close>
  The two-element list of the first return and the tuple of the last are both a pair
  here. \<open>1 / total\<close> raises ZeroDivisionError when \<open>total\<close> is 0. The parameter
  \<open>total\<close> is written \<open>ntotal\<close>. Inside the
  comprehension \<open>k\<close> and \<open>k + 1\<close> are always valid indices of \<open>bounds\<close>.
\<close>

definition default_space :: rat where
  "default_space = 1 / 100"

definition get_domain :: "int \<Rightarrow> int \<Rightarrow> bool \<Rightarrow> rat \<Rightarrow> error + (rat \<times> rat)" where
  "get_domain ntotal element is_y space =
     (if ntotal = 1 then Inr (0, 1)
      else if element > ntotal - 1 then Inl ValueError
      else if ntotal = 0 then Inl ZeroDivisionError
      else
        let per_element = 1 / of_int ntotal;
            space = min (space / 2) (per_element / 10);
            bounds = map (\<lambda>i. per_element * of_int i) (py_range (ntotal + 1));
            domains = map (\<lambda>k. (bounds ! nat k + space, bounds ! nat (k + 1) - space))
                          (py_range (int (length bounds) - 1));
            element = (if is_y then ntotal - element - 1 else element)
        in py_getitem domains element)"

text \<open>The sum of the two bounds of a returned domain; nothing when the call raised.\<close>

definition bounds_sum :: "error + (rat \<times> rat) \<Rightarrow> rat option" where
  "bounds_sum r = (case r of Inl _ \<Rightarrow> None | Inr d \<Rightarrow> Some (fst d + snd d))"

section \<open>Python numbers\<close>

text \<open>
  The shape classes compute with the numbers they are given, Python \<open>int\<close>s or
  \<open>float\<close>s. An \<open>int\<close> is exact. A \<open>float\<close> is an IEEE 754 double, kept as the rational
  number it stands for; the result of every float operation is the exact result
  rounded to the nearest double, ties to the even significand (\<open>fl64\<close>). The exponent
  range is not bounded in the model: overflow to infinity, NaN and subnormal numbers are
  left out.
\<close>

datatype pynum = PInt int | PFloat rat

text \<open>The number of binary digits of a positive integer (0 for the others).\<close>

function bitlen :: "int \<Rightarrow> nat" where
  "bitlen n = (if n \<le> 0 then 0 else Suc (bitlen (n div 2)))"
  by pat_completeness auto
termination
  by (relation "measure nat") auto

declare bitlen.simps [simp del]

text \<open>\<open>pow2 k\<close> is 2 to the power \<open>k\<close>, for any integer \<open>k\<close>.\<close>

definition pow2 :: "int \<Rightarrow> rat" where
  "pow2 k = (if 0 \<le> k then 2 ^ nat k else 1 / 2 ^ nat (- k))"

text \<open>For \<open>x > 0\<close>, the exponent \<open>e\<close> with \<open>pow2 e \<le> x < pow2 (e + 1)\<close>.\<close>

definition ilog2 :: "rat \<Rightarrow> int" where
  "ilog2 x =
     (if 1 \<le> x then int (bitlen \<lfloor>x\<rfloor>) - 1
      else let n = \<lfloor>1 / x\<rfloor>
           in if 1 / x = pow2 (int (bitlen n) - 1) then 1 - int (bitlen n)
              else - int (bitlen n))"

text \<open>Rounding to the nearest integer, a tie going to the even one.\<close>

definition round_half_even :: "rat \<Rightarrow> int" where
  "round_half_even m =
     (let f = \<lfloor>m\<rfloor>; d = m - of_int f
      in if d < 1 / 2 then f
         else if 1 / 2 < d then f + 1
         else if even f then f else f + 1)"

text \<open>
  Rounding to a double: 53 significant bits, so the spacing of doubles around \<open>x\<close> is
  \<open>pow2 (ilog2 \<bar>x\<bar> - 52)\<close>.
\<close>

definition fl64 :: "rat \<Rightarrow> rat" where
  "fl64 x =
     (if x = 0 then 0
      else let u = pow2 (ilog2 \<bar>x\<bar> - 52)
           in sgn x * of_int (round_half_even (\<bar>x\<bar> / u)) * u)"

text \<open>
  The value of a number, and its conversion to \<open>float\<close>, which rounds an \<open>int\<close>.
\<close>

definition val :: "pynum \<Rightarrow> rat" where
  "val a = (case a of PInt i \<Rightarrow> of_int i | PFloat r \<Rightarrow> r)"

definition to_float :: "pynum \<Rightarrow> rat" where
  "to_float a = (case a of PInt i \<Rightarrow> fl64 (of_int i) | PFloat r \<Rightarrow> r)"

definition is_int :: "pynum \<Rightarrow> bool" where
  "is_int a = (case a of PInt _ \<Rightarrow> True | PFloat _ \<Rightarrow> False)"

text \<open>
  \<open>a + b\<close>, \<open>a - b\<close>, \<open>a * b\<close>: exact on two \<open>int\<close>s; otherwise both operands are
  converted to \<open>float\<close> and the result is rounded. \<open>a / b\<close> is always a \<open>float\<close>, on two
  \<open>int\<close>s the rounded exact quotient; the source divides by the literal 2 only.
  \<open>abs\<close> keeps the type. \<open>min(a, b)\<close> returns \<open>a\<close> unless \<open>b\<close> is smaller, and comparisons
  are by value.
\<close>

definition padd :: "pynum \<Rightarrow> pynum \<Rightarrow> pynum" where
  "padd a b =
     (case (a, b) of
        (PInt i, PInt j) \<Rightarrow> PInt (i + j)
      | _ \<Rightarrow> PFloat (fl64 (to_float a + to_float b)))"

definition psub :: "pynum \<Rightarrow> pynum \<Rightarrow> pynum" where
  "psub a b =
     (case (a, b) of
        (PInt i, PInt j) \<Rightarrow> PInt (i - j)
      | _ \<Rightarrow> PFloat (fl64 (to_float a - to_float b)))"

definition pmul :: "pynum \<Rightarrow> pynum \<Rightarrow> pynum" where
  "pmul a b =
     (case (a, b) of
        (PInt i, PInt j) \<Rightarrow> PInt (i * j)
      | _ \<Rightarrow> PFloat (fl64 (to_float a * to_float b)))"

definition pdiv :: "pynum \<Rightarrow> pynum \<Rightarrow> pynum" where
  "pdiv a b =
     (case (a, b) of
        (PInt i, PInt j) \<Rightarrow> PFloat (fl64 (of_int i / of_int j))
      | _ \<Rightarrow> PFloat (fl64 (to_float a / to_float b)))"

definition pabs :: "pynum \<Rightarrow> pynum" where
  "pabs a = (case a of PInt i \<Rightarrow> PInt \<bar>i\<bar> | PFloat r \<Rightarrow> PFloat \<bar>r\<bar>)"

definition pmin :: "pynum \<Rightarrow> pynum \<Rightarrow> pynum" where
  "pmin a b = (if val b < val a then b else a)"

text \<open>
  \<open>numpy.array(values)\<close> on a list of numbers: an integer array when every element is
  an \<open>int\<close> (the integers are taken to fit the array's integer type), and otherwise a
  \<open>float64\<close> array, every element converted to \<open>float\<close>; the empty list gives an empty
  \<open>float64\<close> array. Array arithmetic is elementwise in the array's type: exact on
  integers, rounded after each operation on \<open>float64\<close>. \<open>list(array)\<close> gives back the
  elements as numbers.
\<close>

datatype ndarray = Int64 "int list" | Float64 "rat list"

definition np_array :: "pynum list \<Rightarrow> ndarray" where
  "np_array vs =
     (if vs \<noteq> [] \<and> list_all is_int vs
      then Int64 (map (\<lambda>a. case a of PInt i \<Rightarrow> i | PFloat r \<Rightarrow> 0) vs)
      else Float64 (map to_float vs))"

definition nd_list :: "ndarray \<Rightarrow> pynum list" where
  "nd_list a = (case a of Int64 ns \<Rightarrow> map PInt ns | Float64 rs \<Rightarrow> map PFloat rs)"

definition nd_flip :: "ndarray \<Rightarrow> ndarray" where
  "nd_flip a = (case a of Int64 ns \<Rightarrow> Int64 (rev ns) | Float64 rs \<Rightarrow> Float64 (rev rs))"

text \<open>\<open>a.max() - a + a.min()\<close> on an array \<open>a\<close>.\<close>

definition nd_reflect :: "ndarray \<Rightarrow> ndarray" where
  "nd_reflect a =
     (case a of
        Int64 ns \<Rightarrow> Int64 (map (\<lambda>v. Max (set ns) - v + Min (set ns)) ns)
      | Float64 rs \<Rightarrow>
          Float64 (map (\<lambda>v. fl64 (fl64 (Max (set rs) - v) + Min (set rs))) rs))"

text \<open>
  \<open>numpy.array(xs)\<close> on a list that may hold \<open>None\<close>, as the constructors end: with a
  \<open>None\<close> in the list the array holds the objects as they are; without one it is the
  array of numbers above.
\<close>

type_synonym pypoints = "pynum option list"

definition np_array_objects :: "pypoints \<Rightarrow> pypoints" where
  "np_array_objects xs =
     (if None \<in> set xs then xs
      else map Some (nd_list (np_array (List.map_filter (\<lambda>z. z) xs))))"

text \<open>An array made by \<open>numpy.array\<close> ns never an empty integer array.\<close>

definition made :: "ndarray \<Rightarrow> bool" where
  "made a = (case a of Int64 ns \<Rightarrow> ns \<noteq> [] | Float64 rs \<Rightarrow> True)"

section \<open>Shapes\<close>

text \<open>
  A coordinate list is a list of spans \<open>(start, end)\<close>; \<open>coords[i][0]\<close> is \<open>fst\<close> and
  \<open>coords[i][1]\<close> is \<open>snd\<close> of the \<open>i\<close>-th span. The \<open>x\<close> and \<open>y\<close> arrays of a shape
  hold numbers and \<open>None\<close> (the gaps between polygons).
\<close>

type_synonym coords = "(pynum \<times> pynum) list"

text \<open>
  The outline of one rectangle, written three times in the source (in \<open>Rectangle\<close>, twice,
  and in \<open>Arrow\<close>):
  \<^verbatim>\<open>
  width = abs(coords[i][0] - coords[i][1])
  x_coord = min(coords[i][0], coords[i][1])
  xs += [x_coord, x_coord, x_coord + width, x_coord + width, x_coord]
  ys += [y, y + height, y + height, y, y]
  \<close>
\<close>

definition rect_xs :: "pynum \<times> pynum \<Rightarrow> pypoints" where
  "rect_xs c =
     (let width = pabs (psub (fst c) (snd c)); x_coord = pmin (fst c) (snd c)
      in map Some [x_coord, x_coord, padd x_coord width, padd x_coord width, x_coord])"

definition rect_ys :: "pynum \<Rightarrow> pynum \<Rightarrow> pypoints" where
  "rect_ys y height = map Some [y, padd y height, padd y height, y, y]"

text \<open>
  \<open>Rectangle.__init__(self, coords, y=0, height=0.25, **kwargs)\<close>: the first rectangle,
  then for \<open>i\<close> in \<open>range(1, len(coords))\<close> a connecting segment at half height and the
  \<open>i\<close>-th rectangle; at the end \<open>self.x = numpy.array(xs)\<close> and \<open>self.y = numpy.array(ys)\<close>.
  \<open>coords[0]\<close> raises IndexError on an empty list.
\<close>

definition Rectangle_step ::
  "coords \<Rightarrow> pynum \<Rightarrow> pynum \<Rightarrow> nat \<Rightarrow> pypoints \<times> pypoints \<Rightarrow> pypoints \<times> pypoints" where
  "Rectangle_step coords y height i acc =
     (fst acc @ [None, Some (snd (coords ! (i - 1))), Some (fst (coords ! i)), None]
              @ rect_xs (coords ! i),
      snd acc @ [None, Some (padd y (pdiv height (PInt 2))),
                 Some (padd y (pdiv height (PInt 2))), None]
              @ rect_ys y height)"

definition Rectangle_init :: "coords \<Rightarrow> pynum \<Rightarrow> pynum \<Rightarrow> error + (pypoints \<times> pypoints)" where
  "Rectangle_init coords y height =
     (if coords = [] then Inl IndexError
      else let xy = fold (Rectangle_step coords y height) [1..<length coords]
                      (rect_xs (coords ! 0), rect_ys y height)
           in Inr (np_array_objects (fst xy), np_array_objects (snd xy)))"

text \<open>
  \<open>Diamond.__init__(self, coords, y=0, height=0.25, **kwargs)\<close>: the same walk, with a
  diamond of half height \<open>hh = height / 2\<close> around \<open>y\<close> for every span:
  \<^verbatim>\<open>
  xs += [x_coord, x_coord + width / 2, x_coord + width, x_coord + width / 2, x_coord]
  ys += [y, y + hh, y, y - hh, y]
  \<close>
\<close>

definition diamond_xs :: "pynum \<times> pynum \<Rightarrow> pypoints" where
  "diamond_xs c =
     (let width = pabs (psub (fst c) (snd c)); x_coord = pmin (fst c) (snd c)
      in map Some [x_coord, padd x_coord (pdiv width (PInt 2)), padd x_coord width,
                   padd x_coord (pdiv width (PInt 2)), x_coord])"

definition diamond_ys :: "pynum \<Rightarrow> pynum \<Rightarrow> pypoints" where
  "diamond_ys y hh = map Some [y, padd y hh, y, psub y hh, y]"

definition Diamond_step ::
  "coords \<Rightarrow> pynum \<Rightarrow> pynum \<Rightarrow> nat \<Rightarrow> pypoints \<times> pypoints \<Rightarrow> pypoints \<times> pypoints" where
  "Diamond_step coords y hh i acc =
     (fst acc @ [None, Some (snd (coords ! (i - 1))), Some (fst (coords ! i)), None]
              @ diamond_xs (coords ! i),
      snd acc @ [None, Some y, Some y, None] @ diamond_ys y hh)"

definition Diamond_init :: "coords \<Rightarrow> pynum \<Rightarrow> pynum \<Rightarrow> error + (pypoints \<times> pypoints)" where
  "Diamond_init coords y height =
     (if coords = [] then Inl IndexError
      else let hh = pdiv height (PInt 2);
               xy = fold (Diamond_step coords y hh) [1..<length coords]
                      (diamond_xs (coords ! 0), diamond_ys y hh)
           in Inr (np_array_objects (fst xy), np_array_objects (snd xy)))"

text \<open>
  \<open>Arrow.__init__(self, coords, y=0, height=0.25, arrow_head_w=0.1, reverse=False, **kwargs)\<close>:
  for \<open>i\<close> in \<open>range(len(coords) - 1)\<close> a rectangle and the segment to the next span, then
  the arrow head on the last span \<open>coords[-1]\<close> (IndexError on an empty list):
  \<^verbatim>\<open>
  width = abs(coords[-1][0] - coords[-1][1])
  x_coord = min(coords[-1][0], coords[-1][1])
  hh = height * arrow_head_w * 2
  hw = width * arrow_head_w * 2
  arrow_x = [x_coord, x_coord + width - hw, x_coord + width - hw, x_coord + width,
             x_coord + width - hw, x_coord + width - hw, x_coord, x_coord]
  arrow_y = [y, y, y - hh, y + height / 2, y + height + hh, y + height, y + height, y]
  if not reverse:
      xs += arrow_x
      ys += arrow_y
  else:
      arrow_x = numpy.array(arrow_x)
      arrow_y = numpy.array(arrow_y)
      xs += list(numpy.flip(arrow_x.max() - arrow_x + arrow_x.min()))
      ys += list(numpy.flip(arrow_y))
  self.x = numpy.array(xs)
  self.y = numpy.array(ys)
  \<close>
  In the reversed branch the head is turned into arrays first, so the reflection is
  array arithmetic.
\<close>

definition Arrow_step ::
  "coords \<Rightarrow> pynum \<Rightarrow> pynum \<Rightarrow> nat \<Rightarrow> pypoints \<times> pypoints \<Rightarrow> pypoints \<times> pypoints" where
  "Arrow_step coords y height i acc =
     (fst acc @ rect_xs (coords ! i)
              @ [None, Some (snd (coords ! i)), Some (fst (coords ! (i + 1))), None],
      snd acc @ rect_ys y height
              @ [None, Some (padd y (pdiv height (PInt 2))),
                 Some (padd y (pdiv height (PInt 2))), None])"

definition arrow_x :: "pynum \<times> pynum \<Rightarrow> pynum \<Rightarrow> pynum list" where
  "arrow_x c arrow_head_w =
     (let width = pabs (psub (fst c) (snd c)); x_coord = pmin (fst c) (snd c);
          hw = pmul (pmul width arrow_head_w) (PInt 2)
      in [x_coord, psub (padd x_coord width) hw, psub (padd x_coord width) hw,
          padd x_coord width,
          psub (padd x_coord width) hw, psub (padd x_coord width) hw, x_coord, x_coord])"

definition arrow_y :: "pynum \<Rightarrow> pynum \<Rightarrow> pynum \<Rightarrow> pynum list" where
  "arrow_y y height arrow_head_w =
     (let hh = pmul (pmul height arrow_head_w) (PInt 2)
      in [y, y, psub y hh, padd y (pdiv height (PInt 2)), padd (padd y height) hh,
          padd y height, padd y height, y])"

definition Arrow_init ::
  "coords \<Rightarrow> pynum \<Rightarrow> pynum \<Rightarrow> pynum \<Rightarrow> bool \<Rightarrow> error + (pypoints \<times> pypoints)" where
  "Arrow_init coords y height arrow_head_w reverse =
     (let body = fold (Arrow_step coords y height) [0..<length coords - 1] ([], [])
      in if coords = [] then Inl IndexError
         else
           let ax = arrow_x (last coords) arrow_head_w;
               ay = arrow_y y height arrow_head_w
           in if \<not> reverse
              then Inr (np_array_objects (fst body @ map Some ax),
                        np_array_objects (snd body @ map Some ay))
              else Inr (np_array_objects
                          (fst body @ map Some (nd_list (nd_flip (nd_reflect (np_array ax))))),
                        np_array_objects
                          (snd body @ map Some (nd_list (nd_flip (np_array ay))))))"

text \<open>
  \<open>Point.__init__(self, x, y, size=14, symbol="square", **kwargs)\<close>: one marker, kept in
  object arrays (\<open>numpy.array([x], dtype="O")\<close>).
\<close>

definition Point_init :: "pynum \<Rightarrow> pynum \<Rightarrow> pypoints \<times> pypoints" where
  "Point_init px py = ([Some px], [Some py])"

text \<open>
  The arrow head is the last eight points of an arrow's arrays and the body is what comes
  before them. \<open>mirror_head\<close> is the reversal as the specification words it, done in
  numpy's arithmetic: the head is reflected about its own x extent (\<open>v\<close> goes to
  \<open>max - v + min\<close>, computed on the array of the head), its points are put in reversed
  order, and its y values are reversed; the body stays.
\<close>

definition arrow_head :: "pypoints \<Rightarrow> pypoints" where
  "arrow_head zs = drop (length zs - 8) zs"

definition arrow_body :: "pypoints \<Rightarrow> pypoints" where
  "arrow_body zs = take (length zs - 8) zs"

definition pynumbers :: "pypoints \<Rightarrow> pynum list" where
  "pynumbers zs = List.map_filter (\<lambda>z. z) zs"

definition mirror_head :: "pypoints \<times> pypoints \<Rightarrow> pypoints \<times> pypoints" where
  "mirror_head s =
     (arrow_body (fst s)
        @ map Some (nd_list (nd_flip (nd_reflect (np_array (pynumbers (arrow_head (fst s))))))),
      arrow_body (snd s)
        @ map Some (nd_list (nd_flip (np_array (pynumbers (arrow_head (snd s)))))))"

text \<open>The \<open>[min, max]\<close> interval of the values in an array.\<close>

definition x_extent :: "pypoints \<Rightarrow> rat \<times> rat" where
  "x_extent zs = (Min (set (map val (pynumbers zs))), Max (set (map val (pynumbers zs))))"

text \<open>
  The reflection of a head is exact when turning it into an array changes no value and
  none of the two operations of \<open>max - v + min\<close> rounds. On an integer array that is
  always so.
\<close>

definition exact_reflection :: "pynum list \<Rightarrow> bool" where
  "exact_reflection hs =
     (case np_array hs of
        Int64 ns \<Rightarrow> True
      | Float64 rs \<Rightarrow>
          rs = map val hs
          \<and> list_all (\<lambda>v. fl64 (Max (set rs) - v) = Max (set rs) - v
                        \<and> fl64 (Max (set rs) - v + Min (set rs)) = Max (set rs) - v + Min (set rs))
               rs)"

definition head_extent :: "error + (pypoints \<times> pypoints) \<Rightarrow> (rat \<times> rat) option" where
  "head_extent r = (case r of Inl _ \<Rightarrow> None | Inr s \<Rightarrow> Some (x_extent (arrow_head (fst s))))"

text \<open>The mirrored head, as a list of numbers.\<close>

definition mirrored_x :: "pynum list \<Rightarrow> pynum list" where
  "mirrored_x hs = nd_list (nd_flip (nd_reflect (np_array hs)))"

definition flipped_y :: "pynum list \<Rightarrow> pynum list" where
  "flipped_y hs = nd_list (nd_flip (np_array hs))"

section \<open>make_shape\<close>

text \<open>
  A shape object: its class, the attributes set by \<open>Shape.__init__\<close> from the keywords
  \<open>make_shape\<close> passes (\<open>name\<close>, \<open>text\<close>, \<open>legendgroup\<close>, \<open>fillcolor\<close>), and its \<open>x\<close> and \<open>y\<close>
  arrays.
\<close>

datatype klass = Rectangle | Diamond | Arrow | Point

record shape =
  s_klass :: klass
  s_name :: string
  s_text :: "string option"
  s_legendgroup :: string
  s_fillcolor :: "string option"
  s_x :: pypoints
  s_y :: pypoints

text \<open>
  The class \<open>_Annotatable\<close> lives in \<open>cogent3.core.annotation\<close>; \<open>make_shape\<close> reads five
  things from a feature, which are the fields here: \<open>type_.map.useful\<close>, \<open>type_.name\<close>,
  \<open>type_.map.get_coordinates()\<close>, \<open>type_.map.get_covering_span().reverse\<close> and
  \<open>type_.type\<close>. The argument \<open>type_\<close> is such a feature, a string, or \<open>None\<close> (its default).
\<close>

record feature =
  f_useful :: bool
  f_name :: "string option"
  f_coordinates :: coords
  f_reverse :: bool
  f_type :: string

datatype type_arg = Feature feature | TypeName string | NoType

text \<open>
  The keyword arguments that reach the shape classes: of \<open>**kwargs\<close> the model keeps the
  geometry keywords \<open>y\<close>, \<open>height\<close> and \<open>arrow_head_w\<close>, each given or not
  (a \<open>reverse\<close> keyword is overwritten by \<open>kwargs.update\<close> in any case).
\<close>

record kwargs =
  kw_y :: "pynum option"
  kw_height :: "pynum option"
  kw_arrow_head_w :: "pynum option"

definition no_kwargs :: kwargs where
  "no_kwargs = \<lparr>kw_y = None, kw_height = None, kw_arrow_head_w = None\<rparr>"

text \<open>
  \<open>str.lower()\<close> on the characters a \<open>string\<close> can hold: the letters \<open>A\<close> to \<open>Z\<close> go to
  \<open>a\<close> to \<open>z\<close>, every other character stays. The keys of the two tables below are
  lower-case ASCII, so these are the letters that decide a lookup.
\<close>

definition lower_char :: "char \<Rightarrow> char" where
  "lower_char c =
     (case map_of (zip ''ABCDEFGHIJKLMNOPQRSTUVWXYZ'' ''abcdefghijklmnopqrstuvwxyz'') c of
        None \<Rightarrow> c
      | Some l \<Rightarrow> l)"

definition lower :: "string \<Rightarrow> string" where
  "lower s = map lower_char s"

definition colors :: "(string \<times> string) list" where
  "colors =
     [(''cds'', ''rgba(0,0,150,0.5)''),
      (''exon'', ''rgba(0,0,100,0.5)''),
      (''gene'', ''rgba(0,0,150,0.5)''),
      (''transcript'', ''rgba(0,0,200,0.5)''),
      (''snp'', ''rgba(200,0,0,0.5)''),
      (''snv'', ''rgba(200,0,0,0.5)'')]"

definition shapes :: "(string \<times> klass) list" where
  "shapes =
     [(''cds'', Arrow),
      (''exon'', Arrow),
      (''transcript'', Arrow),
      (''gene'', Arrow),
      (''repeat'', Rectangle),
      (''snp'', Point),
      (''snv'', Point),
      (''variation'', Diamond)]"

text \<open>\<open>d.get(key, default)\<close> on such a table.\<close>

definition dict_get :: "(string \<times> 'a) list \<Rightarrow> string \<Rightarrow> 'a \<Rightarrow> 'a" where
  "dict_get d key dflt = (case map_of d key of None \<Rightarrow> dflt | Some v \<Rightarrow> v)"

text \<open>
  The call \<open>klass(name=type_, text=name, legendgroup=type_, coords=coords, fillcolor=color,
  **kwargs)\<close> for the three classes built from \<open>coords\<close>. \<open>Rectangle\<close> and \<open>Diamond\<close> hand
  every keyword they do not name to \<open>Shape.__init__\<close>, their first statement, which raises
  TypeError on \<open>arrow_head_w\<close>; \<open>reverse\<close> has been popped for them. The defaults are
  \<open>y=0\<close>, \<open>height=0.25\<close>, \<open>arrow_head_w=0.1\<close>; the literal \<open>0.1\<close> is the double
  nearest to one tenth.
\<close>

definition or_default :: "'a option \<Rightarrow> 'a \<Rightarrow> 'a" where
  "or_default v dflt = (case v of None \<Rightarrow> dflt | Some a \<Rightarrow> a)"

definition default_y :: pynum where
  "default_y = PInt 0"

definition default_height :: pynum where
  "default_height = PFloat (1 / 4)"

definition default_arrow_head_w :: pynum where
  "default_arrow_head_w = PFloat (fl64 (1 / 10))"

definition klass_call ::
  "klass \<Rightarrow> coords \<Rightarrow> bool \<Rightarrow> kwargs \<Rightarrow> error + (pypoints \<times> pypoints)" where
  "klass_call k coords reverse kw =
     (let y = or_default (kw_y kw) default_y;
          height = or_default (kw_height kw) default_height
      in if k = Arrow
         then Arrow_init coords y height
                (or_default (kw_arrow_head_w kw) default_arrow_head_w) reverse
         else if kw_arrow_head_w kw \<noteq> None then Inl TypeError
         else if k = Diamond then Diamond_init coords y height
         else Rectangle_init coords y height)"

text \<open>
  \<^verbatim>\<open>
  def __call__(self, type_=None, name=None, coords=None, **kwargs):
      if isinstance(type_, _Annotatable):
          if not type_.map.useful:
              return None
          name = type_.name
          coords = type_.map.get_coordinates()
          reverse = type_.map.get_covering_span().reverse
          type_ = type_.type
      else:
          if coords[0][0] > coords[-1][1]:
              reverse = True
          else:
              reverse = False
          if coords is None:
              raise Exception("No coordinates defined")
      kwargs.update(dict(reverse=reverse))
      klass = self._shapes.get(type_.lower(), Rectangle)
      color = self._colors.get(type_.lower(), None)
      if klass != Arrow:
          kwargs.pop("reverse", None)
      if klass != Point:
          result = klass(name=type_, text=name, legendgroup=type_, coords=coords,
                         fillcolor=color, **kwargs)
      else:
          result = Point(name=type_, text=name, legendgroup=type_,
                         x=min(coords[0][0], coords[-1][1]), y=1, size=14,
                         symbol="square", fillcolor=color, **kwargs)
      return result
  \<close>
  \<open>resolve\<close> is the first \<open>if\<close>: it yields nothing for a feature whose map is not useful,
  and otherwise the type name, the text, the coordinates and the direction. Subscripting
  \<open>None\<close> raises TypeError and \<open>coords[0]\<close> on an empty list raises IndexError, both in the
  test \<open>coords[0][0] > coords[-1][1]\<close>, which runs before \<open>coords is None\<close> is looked at;
  the \<open>raise\<close> below it is the \<open>NoCoordinates\<close> of the model. \<open>None.lower()\<close> raises
  AttributeError. The parameter \<open>type_\<close> is written \<open>ty\<close>.
\<close>

definition resolve ::
  "type_arg \<Rightarrow> string option \<Rightarrow> coords option
     \<Rightarrow> error + (type_arg \<times> string option \<times> coords \<times> bool) option" where
  "resolve ty name coords =
     (case ty of
        Feature f \<Rightarrow>
          if \<not> f_useful f then Inr None
          else Inr (Some (TypeName (f_type f), f_name f, f_coordinates f, f_reverse f))
      | _ \<Rightarrow>
          (case coords of
             None \<Rightarrow> Inl TypeError
           | Some cs \<Rightarrow>
               if cs = [] then Inl IndexError
               else
                 let reverse = (if val (fst (cs ! 0)) > val (snd (last cs)) then True else False)
                 in if coords = None then Inl NoCoordinates
                    else Inr (Some (ty, name, cs, reverse))))"

definition build :: "type_arg \<Rightarrow> string option \<Rightarrow> coords \<Rightarrow> bool \<Rightarrow> kwargs \<Rightarrow> error + shape" where
  "build ty name coords reverse kw =
     (case ty of
        TypeName t \<Rightarrow>
          let k = dict_get shapes (lower t) Rectangle;
              color = dict_get (map (\<lambda>(key, c). (key, Some c)) colors) (lower t) None
          in if k \<noteq> Point
             then (case klass_call k coords reverse kw of
                     Inl e \<Rightarrow> Inl e
                   | Inr xy \<Rightarrow>
                       Inr \<lparr>s_klass = k, s_name = t, s_text = name, s_legendgroup = t,
                            s_fillcolor = color, s_x = fst xy, s_y = snd xy\<rparr>)
             else if coords = [] then Inl IndexError
             else if kw_y kw \<noteq> None \<or> kw_height kw \<noteq> None \<or> kw_arrow_head_w kw \<noteq> None
             then Inl TypeError
             else
               let xy = Point_init (pmin (fst (coords ! 0)) (snd (last coords))) (PInt 1)
               in Inr \<lparr>s_klass = Point, s_name = t, s_text = name, s_legendgroup = t,
                       s_fillcolor = color, s_x = fst xy, s_y = snd xy\<rparr>
      | _ \<Rightarrow> Inl AttributeError)"

definition make_shape :: "type_arg \<Rightarrow> string option \<Rightarrow> coords option \<Rightarrow> kwargs \<Rightarrow> error + shape option" where
  "make_shape ty name coords kw =
     (case resolve ty name coords of
        Inl e \<Rightarrow> Inl e
      | Inr None \<Rightarrow> Inr None
      | Inr (Some (ty, name, cs, reverse)) \<Rightarrow>
          (case build ty name cs reverse kw of
             Inl e \<Rightarrow> Inl e
           | Inr s \<Rightarrow> Inr (Some s)))"

text \<open>
  The conversion as the specification words it: the primitive for a feature type, looked
  up by its lower-case name.
\<close>

definition primitive_for :: "string \<Rightarrow> klass" where
  "primitive_for t =
     (if lower t \<in> {''cds'', ''exon'', ''transcript'', ''gene''} then Arrow
      else if lower t \<in> {''snp'', ''snv''} then Point
      else if lower t = ''variation'' then Diamond
      else Rectangle)"

text \<open>The keywords a class accepts next to the ones \<open>make_shape\<close> passes itself.\<close>

definition accepts :: "klass \<Rightarrow> kwargs \<Rightarrow> bool" where
  "accepts k kw =
     (if k = Arrow then True
      else if k = Point
      then kw_y kw = None \<and> kw_height kw = None \<and> kw_arrow_head_w kw = None
      else kw_arrow_head_w kw = None)"

definition type_name :: "type_arg \<Rightarrow> string" where
  "type_name ty = (case ty of Feature f \<Rightarrow> f_type f | TypeName t \<Rightarrow> t | NoType \<Rightarrow> [])"

text \<open>
  What the specification calls converting coordinates into the primitive: the arrays
  are the ones the constructor of the primitive makes from the coordinates, with the
  keywords given or their defaults; an arrow points backwards when told so, and a point
  sits at height 1 on the smaller of the first start and the last end.
\<close>

definition primitive_arrays ::
  "klass \<Rightarrow> coords \<Rightarrow> bool \<Rightarrow> kwargs \<Rightarrow> error + (pypoints \<times> pypoints)" where
  "primitive_arrays k cs reverse kw =
     (case k of
        Arrow \<Rightarrow>
          Arrow_init cs (or_default (kw_y kw) default_y)
            (or_default (kw_height kw) default_height)
            (or_default (kw_arrow_head_w kw) default_arrow_head_w) reverse
      | Rectangle \<Rightarrow>
          Rectangle_init cs (or_default (kw_y kw) default_y)
            (or_default (kw_height kw) default_height)
      | Diamond \<Rightarrow>
          Diamond_init cs (or_default (kw_y kw) default_y)
            (or_default (kw_height kw) default_height)
      | Point \<Rightarrow> Inr (Point_init (pmin (fst (cs ! 0)) (snd (last cs))) (PInt 1)))"

text \<open>
  The coordinates and the direction \<open>make_shape\<close> works with: those of the feature, or
  the \<open>coords\<close> argument, reversed when its first start is greater than its last end.
\<close>

definition coords_of :: "type_arg \<Rightarrow> coords option \<Rightarrow> coords" where
  "coords_of ty coords =
     (case ty of Feature f \<Rightarrow> f_coordinates f | _ \<Rightarrow> or_default coords [])"

definition reverse_of :: "type_arg \<Rightarrow> coords option \<Rightarrow> bool" where
  "reverse_of ty coords =
     (case ty of
        Feature f \<Rightarrow> f_reverse f
      | _ \<Rightarrow> val (snd (last (or_default coords []))) < val (fst (or_default coords [] ! 0)))"

definition text_of :: "type_arg \<Rightarrow> string option \<Rightarrow> string option" where
  "text_of ty name = (case ty of Feature f \<Rightarrow> f_name f | _ \<Rightarrow> name)"

definition shape_arrays :: "shape \<Rightarrow> error + (pypoints \<times> pypoints)" where
  "shape_arrays s = Inr (s_x s, s_y s)"

section \<open>Drawable\<close>

text \<open>
  A trace is an object with attributes, here the finite map from attribute names to
  values, kept as an association list; \<open>tr.name\<close> reads the attribute \<open>name\<close> and raises
  AttributeError when the trace has none. The values that matter are the names: a string
  or \<open>None\<close>. The empty dictionary \<open>{}\<close> is the empty list.
\<close>

datatype pyval = PNone | PStr string

type_synonym trace = "(string \<times> pyval) list"

text \<open>
  Of the layout mapping the model keeps what \<open>figure\<close> touches, the titles of the two
  axes (\<open>None\<close> also when the key is absent, as \<open>get("title", None)\<close> reads it).
\<close>

record layout =
  l_xaxis_title :: "string option"
  l_yaxis_title :: "string option"

record drawable =
  d_traces :: "trace list"
  d_layout :: layout
  d_xtitle :: "string option"
  d_ytitle :: "string option"

text \<open>
  \<open>Drawable.__init__\<close>, for the attributes above: \<open>self._traces = traces or []\<close>, the
  layout with the titles the caller's \<open>layout\<close> argument may carry, and the two titles.
\<close>

definition Drawable_init :: "trace list option \<Rightarrow> layout \<Rightarrow> string option \<Rightarrow> string option \<Rightarrow> drawable" where
  "Drawable_init traces layout xtitle ytitle =
     \<lparr>d_traces = or_default traces [], d_layout = layout, d_xtitle = xtitle, d_ytitle = ytitle\<rparr>"

text \<open>
  \<^verbatim>\<open>
  def get_trace_titles(self):
      titles = [tr.name for tr in self.traces]
      return titles

  def pop_trace(self, title):
      try:
          index = self.get_trace_titles().index(title)
      except ValueError:
          UserWarning(f"no trace with name {title}")
          return
      return self.traces.pop(index)

  def add_trace(self, trace):
      self.traces.append(trace)
  \<close>
\<close>

definition getattr_name :: "trace \<Rightarrow> error + pyval" where
  "getattr_name tr = (case map_of tr ''name'' of None \<Rightarrow> Inl AttributeError | Some v \<Rightarrow> Inr v)"

fun get_titles :: "trace list \<Rightarrow> error + pyval list" where
  "get_titles [] = Inr []"
| "get_titles (tr # trs) =
     (case getattr_name tr of
        Inl e \<Rightarrow> Inl e
      | Inr v \<Rightarrow> (case get_titles trs of Inl e \<Rightarrow> Inl e | Inr vs \<Rightarrow> Inr (v # vs)))"

text \<open>The names of the traces that have one, and whether a trace has one.\<close>

definition has_name :: "trace \<Rightarrow> bool" where
  "has_name tr = (map_of tr ''name'' \<noteq> None)"

definition trace_names :: "drawable \<Rightarrow> pyval list" where
  "trace_names d = List.map_filter (\<lambda>tr. map_of tr ''name'') (d_traces d)"

definition get_trace_titles :: "drawable \<Rightarrow> error + pyval list" where
  "get_trace_titles d = get_titles (d_traces d)"

text \<open>\<open>list.index(v)\<close>: the position of the first element equal to \<open>v\<close>, or ValueError.\<close>

fun py_index :: "'a list \<Rightarrow> 'a \<Rightarrow> error + nat" where
  "py_index [] v = Inl ValueError"
| "py_index (x # xs) v =
     (if x = v then Inr 0
      else (case py_index xs v of Inl e \<Rightarrow> Inl e | Inr i \<Rightarrow> Inr (Suc i)))"

text \<open>
  What a call of \<open>pop_trace\<close> leaves behind: the value returned (\<open>None\<close> or the trace), the
  drawable after the call, and the warnings the call issued. The source builds a
  \<open>UserWarning\<close> object and drops it; it neither raises it nor passes it to
  \<open>warnings.warn\<close>, so no branch adds to \<open>p_warnings\<close>. Only ValueError is caught.
\<close>

record pop_result =
  p_returned :: "trace option"
  p_drawable :: drawable
  p_warnings :: "string list"

definition pop_trace :: "drawable \<Rightarrow> pyval \<Rightarrow> error + pop_result" where
  "pop_trace d title =
     (case get_trace_titles d of
        Inl e \<Rightarrow> Inl e
      | Inr titles \<Rightarrow>
          (case py_index titles title of
             Inl ValueError \<Rightarrow> Inr \<lparr>p_returned = None, p_drawable = d, p_warnings = []\<rparr>
           | Inl e \<Rightarrow> Inl e
           | Inr i \<Rightarrow>
               Inr \<lparr>p_returned = Some (d_traces d ! i),
                    p_drawable = d\<lparr>d_traces := take i (d_traces d) @ drop (Suc i) (d_traces d)\<rparr>,
                    p_warnings = []\<rparr>))"

definition add_trace :: "trace \<Rightarrow> drawable \<Rightarrow> drawable" where
  "add_trace tr d = d\<lparr>d_traces := d_traces d @ [tr]\<rparr>"

text \<open>
  \<^verbatim>\<open>
  @property
  def figure(self):
      if not self.traces and hasattr(self, "_build_fig"):
          self._build_fig()
      traces = self.traces if self.traces else [{}]
      if self.xtitle:
          xtitle = self.xtitle
      else:
          xtitle = self.layout.xaxis.get("title", None)
      if self.ytitle:
          ytitle = self.ytitle
      else:
          ytitle = self.layout.yaxis.get("title", None)
      self.layout.xaxis.title = xtitle
      self.layout.yaxis.title = ytitle
      return UnionDict(data=traces, layout=self.layout)
  \<close>
  The class \<open>Drawable\<close> itself defines no \<open>_build_fig\<close>; a subclass may. The hook is the
  first argument of the model: \<open>None\<close> when the object has none, and otherwise the
  method, which may change the object (its traces, its layout) or raise; its return
  value is not used. The returned mapping is the list of its items; the drawable is
  returned too, with the titles written into its layout. \<open>AnnotatedDrawable\<close> replaces
  the property by its own and is not an instance of this function.
\<close>

datatype figure_value = Data "trace list" | Layout layout

definition truthy :: "string option \<Rightarrow> bool" where
  "truthy v = (case v of None \<Rightarrow> False | Some s \<Rightarrow> s \<noteq> [])"

definition figure ::
  "(drawable \<Rightarrow> error + drawable) option \<Rightarrow> drawable
     \<Rightarrow> error + ((string \<times> figure_value) list \<times> drawable)" where
  "figure build_fig d =
     (case (if d_traces d = []
            then (case build_fig of None \<Rightarrow> Inr d | Some b \<Rightarrow> b d)
            else Inr d) of
        Inl e \<Rightarrow> Inl e
      | Inr d \<Rightarrow>
          let traces = (if d_traces d \<noteq> [] then d_traces d else [[]]);
              xtitle = (if truthy (d_xtitle d) then d_xtitle d else l_xaxis_title (d_layout d));
              ytitle = (if truthy (d_ytitle d) then d_ytitle d else l_yaxis_title (d_layout d));
              layout = (d_layout d)\<lparr>l_xaxis_title := xtitle, l_yaxis_title := ytitle\<rparr>
          in Inr ([(''data'', Data traces), (''layout'', Layout layout)],
                  d\<lparr>d_layout := layout\<rparr>))"

text \<open>The \<open>data\<close> value of a returned figure; nothing when the call raised.\<close>

definition figure_data ::
  "error + ((string \<times> figure_value) list \<times> drawable) \<Rightarrow> trace list option" where
  "figure_data r =
     (case r of
        Inl e \<Rightarrow> None
      | Inr fd \<Rightarrow> (case map_of (fst fd) ''data'' of Some (Data ts) \<Rightarrow> Some ts | _ \<Rightarrow> None))"

section \<open>The two-track layout\<close>

text \<open>
  \<open>AnnotatedDrawable._build_2x2_fig\<close>, as far as axis ranges and domains go. A domain is
  a pair of bounds. The class \<open>UnionDict\<close> (\<open>cogent3.util.union_dict\<close>) is not among the
  sources.

  Modelled from the spec: \<open>UnionDict\<close> and its \<open>|=\<close>, the generic key-merging dictionary:
  \<open>layout |= self.layout\<close> merges the right operand into the left one key by key, nested
  dictionaries likewise, and where both hold a value the right one replaces the left.
  For the six domains: a domain the drawable's own layout sets replaces the base one.
\<close>

record domains =
  dom_xaxis :: "rat \<times> rat"
  dom_xaxis2 :: "rat \<times> rat"
  dom_xaxis3 :: "rat \<times> rat"
  dom_yaxis :: "rat \<times> rat"
  dom_yaxis2 :: "rat \<times> rat"
  dom_yaxis3 :: "rat \<times> rat"

record own_domains =
  own_xaxis :: "(rat \<times> rat) option"
  own_xaxis2 :: "(rat \<times> rat) option"
  own_xaxis3 :: "(rat \<times> rat) option"
  own_yaxis :: "(rat \<times> rat) option"
  own_yaxis2 :: "(rat \<times> rat) option"
  own_yaxis3 :: "(rat \<times> rat) option"

definition no_own_domains :: own_domains where
  "no_own_domains =
     \<lparr>own_xaxis = None, own_xaxis2 = None, own_xaxis3 = None,
      own_yaxis = None, own_yaxis2 = None, own_yaxis3 = None\<rparr>"

definition base_domains :: domains where
  "base_domains =
     \<lparr>dom_xaxis = (0, 99 / 1000), dom_xaxis2 = (109 / 1000, 1), dom_xaxis3 = (109 / 1000, 1),
      dom_yaxis = (109 / 1000, 1), dom_yaxis2 = (109 / 1000, 1), dom_yaxis3 = (0, 99 / 1000)\<rparr>"

definition union_domains :: "domains \<Rightarrow> own_domains \<Rightarrow> domains" where
  "union_domains base own =
     \<lparr>dom_xaxis = or_default (own_xaxis own) (dom_xaxis base),
      dom_xaxis2 = or_default (own_xaxis2 own) (dom_xaxis2 base),
      dom_xaxis3 = or_default (own_xaxis3 own) (dom_xaxis3 base),
      dom_yaxis = or_default (own_yaxis own) (dom_yaxis base),
      dom_yaxis2 = or_default (own_yaxis2 own) (dom_yaxis2 base),
      dom_yaxis3 = or_default (own_yaxis3 own) (dom_yaxis3 base)\<rparr>"

text \<open>
  The loop over the traces of a track:
  \<^verbatim>\<open>
  max_x = 0
  for trace in self.left_track.traces:
      x = numpy.array(trace.x, dtype=float)
      indices = numpy.logical_not(numpy.isnan(x))
      max_x = max(x[indices].max(), max_x)
  \<close>
  \<open>None\<close> becomes NaN and is filtered out; \<open>max()\<close> of an empty array raises ValueError.
  The argument is the list of the \<open>x\<close> arrays (for the bottom track, the \<open>y\<close> arrays) of
  the track's traces.
\<close>

text \<open>
  The arrays read here are made with \<open>dtype=float\<close> and only compared, so a value is
  the rational number it stands for and \<open>None\<close> is the missing value.
\<close>

type_synonym points = "rat option list"

definition numbers :: "points \<Rightarrow> rat list" where
  "numbers zs = List.map_filter (\<lambda>z. z) zs"

fun track_max :: "points list \<Rightarrow> rat \<Rightarrow> error + rat" where
  "track_max [] m = Inr m"
| "track_max (x # xs) m =
     (if numbers x = [] then Inl ValueError
      else track_max xs (max (Max (set (numbers x))) m))"

text \<open>\<open>int(v)\<close> of a float: truncation towards zero.\<close>

definition py_int :: "rat \<Rightarrow> int" where
  "py_int v = (if 0 \<le> v then \<lfloor>v\<rfloor> else \<lceil>v\<rceil>)"

text \<open>
  \<^verbatim>\<open>
  left_range = [0, int(max_x) + 1]
  ...
  bottom_range = [0, int(max_y) + 1]
  ...
  min_range = min(left_range[1], bottom_range[1])
  left_prop = left_range[1] / min_range
  xaxis_domain = list(layout.xaxis.domain)
  xaxis_domain[1] = left_prop * xaxis_domain[1]
  fig.layout.xaxis |= dict(title=None, range=left_range, domain=xaxis_domain, ...)
  space = 0.01
  fig.layout.xaxis2.domain = (xaxis_domain[1] + space, 1.0)
  fig.layout.xaxis3.domain = (xaxis_domain[1] + space, 1.0)
  bottom_prop = bottom_range[1] / min_range
  yaxis_domain = list(layout.yaxis3.domain)
  yaxis_domain[1] = bottom_prop * yaxis_domain[1]
  fig.layout.yaxis3 |= dict(title={}, range=bottom_range, domain=yaxis_domain, ...)
  fig.layout.yaxis.domain = (yaxis_domain[1] + space, 1.0)
  fig.layout.yaxis2.domain = (yaxis_domain[1] + space, 1.0)
  \<close>
  The arguments are the domains of the drawable's own layout and the arrays of the two
  tracks. The result holds the two track ranges and the six domains of the figure.
\<close>

record fig_2x2 =
  r_left_range :: "int \<times> int"
  r_bottom_range :: "int \<times> int"
  r_domains :: domains

definition build_2x2_fig :: "own_domains \<Rightarrow> points list \<Rightarrow> points list \<Rightarrow> error + fig_2x2" where
  "build_2x2_fig own left_xs bottom_ys =
     (let layout = union_domains base_domains own
      in case track_max left_xs 0 of
           Inl e \<Rightarrow> Inl e
         | Inr max_x \<Rightarrow>
             (case track_max bottom_ys 0 of
                Inl e \<Rightarrow> Inl e
              | Inr max_y \<Rightarrow>
                  let left_range = (0, py_int max_x + 1);
                      bottom_range = (0, py_int max_y + 1);
                      min_range = min (snd left_range) (snd bottom_range);
                      left_prop = of_int (snd left_range) / of_int min_range;
                      xaxis_domain = (fst (dom_xaxis layout), left_prop * snd (dom_xaxis layout));
                      space = 1 / 100;
                      bottom_prop = of_int (snd bottom_range) / of_int min_range;
                      yaxis_domain = (fst (dom_yaxis3 layout), bottom_prop * snd (dom_yaxis3 layout))
                  in Inr \<lparr>r_left_range = left_range,
                          r_bottom_range = bottom_range,
                          r_domains =
                            \<lparr>dom_xaxis = xaxis_domain,
                             dom_xaxis2 = (snd xaxis_domain + space, 1),
                             dom_xaxis3 = (snd xaxis_domain + space, 1),
                             dom_yaxis = (snd yaxis_domain + space, 1),
                             dom_yaxis2 = (snd yaxis_domain + space, 1),
                             dom_yaxis3 = yaxis_domain\<rparr>\<rparr>))"

text \<open>
  The extent of a track is the upper end of its range, \<open>int(max) + 1\<close>, with the maximum
  taken over the numbers of all its traces and 0.
\<close>

definition track_extent :: "points list \<Rightarrow> int" where
  "track_extent xs = py_int (Max (insert 0 (set (concat (map numbers xs))))) + 1"

section \<open>Facts about get_domain\<close>

lemma length_py_range: "length (py_range n) = nat n"
  by (simp add: py_range_def)

lemma nth_py_range: "k < nat n \<Longrightarrow> py_range n ! k = int k"
  by (simp add: py_range_def)

lemma get_domain_closed_form:
  fixes ntotal element :: int and is_y :: bool and space :: rat
  assumes "2 \<le> ntotal" "0 \<le> element" "element \<le> ntotal - 1"
  defines "e \<equiv> (if is_y then ntotal - element - 1 else element)"
  defines "sp \<equiv> min (space / 2) (1 / of_int ntotal / 10)"
  shows "get_domain ntotal element is_y space =
           Inr (1 / of_int ntotal * of_int e + sp, 1 / of_int ntotal * of_int (e + 1) - sp)"
proof -
  let ?bounds = "map (\<lambda>i. 1 / of_int ntotal * (of_int i :: rat)) (py_range (ntotal + 1))"
  let ?domains = "map (\<lambda>k. (?bounds ! nat k + sp, ?bounds ! nat (k + 1) - sp))
                      (py_range (int (length ?bounds) - 1))"
  have e: "0 \<le> e" "e < ntotal"
    using assms by (auto simp: e_def)
  have len_b: "length ?bounds = nat (ntotal + 1)"
    by (simp add: length_py_range)
  have len_d: "int (length ?domains) = ntotal"
    using assms(1) by (simp add: length_py_range)
  have b: "?bounds ! k = 1 / of_int ntotal * of_int (int k)" if "k < nat (ntotal + 1)" for k
    using that by (simp add: length_py_range nth_py_range)
  have "nat e < nat (int (length ?bounds) - 1)"
    using e assms(1) by (simp add: length_py_range)
  then have d: "?domains ! nat e = (?bounds ! nat e + sp, ?bounds ! nat (e + 1) - sp)"
    using e by (simp add: length_py_range nth_py_range)
  have "?bounds ! nat e = 1 / of_int ntotal * of_int e"
    using b [of "nat e"] e by simp
  moreover have "?bounds ! nat (e + 1) = 1 / of_int ntotal * of_int (e + 1)"
    using b [of "nat (e + 1)"] e by simp
  ultimately have d': "?domains ! nat e =
      (1 / of_int ntotal * of_int e + sp, 1 / of_int ntotal * of_int (e + 1) - sp)"
    using d by simp
  have "py_getitem ?domains e = Inr (?domains ! nat e)"
    using e len_d by (simp add: py_getitem_def Let_def del: length_map)
  then have "py_getitem ?domains e =
      Inr (1 / of_int ntotal * of_int e + sp, 1 / of_int ntotal * of_int (e + 1) - sp)"
    using d' by simp
  moreover have "get_domain ntotal element is_y space = py_getitem ?domains e"
    using assms(1,3) unfolding get_domain_def Let_def e_def sp_def by simp
  ultimately show ?thesis by simp
qed

text \<open>
  Negative elements are not rejected: Python's indexing reads them from the end of
  \<open>domains\<close>, or raises IndexError when they fall off it.
\<close>

lemma get_domain_negative_element:
  "get_domain 2 (- 1) False default_space = Inr (101 / 200, 199 / 200)"
  "get_domain 2 (- 3) False default_space = Inl IndexError"
  "get_domain 2 (- 1) True default_space = Inl IndexError"
  by (simp_all add: get_domain_def default_space_def py_range_def py_getitem_def upt_rec)

text \<open>
  C1 (as stated): with \<open>total = 1\<close> the two bounds returned by \<open>get_domain\<close> add up to
  1 minus \<open>space\<close>. This fails for the default spacing 0.01: the call returns
  \<open>[0, 1]\<close>, whose bounds add up to 1, not to 0.99.
\<close>

theorem C1_single_track_sum_counterexample:
  "bounds_sum (get_domain 1 0 False default_space) \<noteq> Some (1 - default_space)"
  by (simp add: get_domain_def bounds_sum_def default_space_def)

text \<open>
  C1 (amended): with \<open>total = 1\<close>, \<open>get_domain\<close> returns \<open>[0, 1]\<close> for every element,
  \<open>is_y\<close> and \<open>space\<close>; the two bounds add up to 1 and the spacing plays no part.
\<close>

theorem C1_single_track_sum:
  "get_domain 1 element is_y space = Inr (0, 1)
   \<and> bounds_sum (get_domain 1 element is_y space) = Some 1"
  by (simp add: get_domain_def bounds_sum_def)

text \<open>
  C3 (as stated): for every \<open>total \<ge> 1\<close> and every element outside \<open>0..total - 1\<close>,
  \<open>get_domain\<close> raises ValueError. This fails for \<open>total = 1\<close>, where the function
  returns before it looks at the element: element 5 of a grid of one gets \<open>[0, 1]\<close>.
\<close>

theorem C3_out_of_range_counterexample:
  "(1::int) \<le> 1 \<and> \<not> ((0::int) \<le> 5 \<and> (5::int) \<le> 1 - 1)
   \<and> get_domain 1 5 False default_space = Inr (0, 1)
   \<and> get_domain 1 5 False default_space \<noteq> Inl ValueError"
  by (simp add: get_domain_def)

text \<open>
  C3 (amended): for every \<open>total \<ge> 2\<close> and every element greater than \<open>total - 1\<close>,
  \<open>get_domain\<close> raises ValueError and returns no domain; with \<open>total = 1\<close> it returns
  \<open>[0, 1]\<close> whatever the element.
\<close>

theorem C3_index_too_big:
  "(2 \<le> ntotal \<and> ntotal - 1 < element \<longrightarrow>
      get_domain ntotal element is_y space = Inl ValueError)
   \<and> get_domain 1 element is_y space = Inr (0, 1)"
  by (simp add: get_domain_def)

theorem C3_index_too_big_witness:
  "(2::int) \<le> 3 \<and> (3::int) - 1 < 3
   \<and> get_domain 3 3 True default_space = Inl ValueError
   \<and> get_domain 1 3 True default_space = Inr (0, 1)"
  using C3_index_too_big [of 3 3 True default_space] by simp

text \<open>
  C7: for every \<open>total \<ge> 1\<close>, every element with \<open>0 \<le> element \<le> total - 1\<close>, every
  \<open>is_y\<close> and the default \<open>space\<close>, \<open>get_domain\<close> returns a domain, both of its bounds
  lie within \<open>[0, 1]\<close>, and the lower bound is strictly less than the upper bound.
\<close>

theorem C7_domain_normalised:
  assumes "1 \<le> ntotal" "0 \<le> element" "element \<le> ntotal - 1"
  shows "\<exists>lo hi. get_domain ntotal element is_y default_space = Inr (lo, hi)
            \<and> 0 \<le> lo \<and> lo < hi \<and> hi \<le> 1"
proof (cases "ntotal = 1")
  case True
  then show ?thesis by (simp add: get_domain_def)
next
  case False
  with assms have n2: "2 \<le> ntotal" by simp
  define e where "e = (if is_y then ntotal - element - 1 else element)"
  define sp :: rat where "sp = min (default_space / 2) (1 / of_int ntotal / 10)"
  define p :: rat where "p = 1 / of_int ntotal"
  have e: "0 \<le> e" "e + 1 \<le> ntotal"
    using assms by (auto simp: e_def)
  have p: "0 < p" "p * of_int ntotal = 1"
    using n2 by (simp_all add: p_def)
  have sp: "0 < sp" "sp \<le> p / 10"
    using p(1) by (simp_all add: sp_def default_space_def p_def)
  have lo: "0 \<le> p * of_int e + sp"
    using e(1) p(1) sp(1) by (simp add: add_nonneg_nonneg)
  have "p * of_int (e + 1) \<le> p * of_int ntotal"
    using e(2) p(1) by (simp del: of_int_add)
  then have hi: "p * of_int (e + 1) - sp \<le> 1"
    using p(2) sp(1) by linarith
  have "p * of_int (e + 1) = p * of_int e + p"
    by (simp add: algebra_simps)
  then have lt: "p * of_int e + sp < p * of_int (e + 1) - sp"
    using sp p(1) by linarith
  have "get_domain ntotal element is_y default_space =
          Inr (p * of_int e + sp, p * of_int (e + 1) - sp)"
    unfolding p_def e_def sp_def by (rule get_domain_closed_form [OF n2 assms(2,3)])
  with lo hi lt show ?thesis by blast
qed

theorem C7_domain_normalised_witness:
  "(1::int) \<le> 3 \<and> (0::int) \<le> 1 \<and> (1::int) \<le> 3 - 1
   \<and> (\<exists>lo hi. get_domain 3 1 True default_space = Inr (lo, hi)
          \<and> 0 \<le> lo \<and> lo < hi \<and> hi \<le> 1)"
  using C7_domain_normalised [of 3 1 True] by simp

section \<open>Facts about the shapes\<close>

lemma made_np_array: "made (np_array vs)"
  by (simp add: np_array_def made_def)

lemma made_nd_flip: "made a \<Longrightarrow> made (nd_flip a)"
  by (cases a) (simp_all add: made_def nd_flip_def)

lemma made_nd_reflect: "made a \<Longrightarrow> made (nd_reflect a)"
  by (cases a) (simp_all add: made_def nd_reflect_def)

lemma np_array_nd_list: "made a \<Longrightarrow> np_array (nd_list a) = a"
proof (cases a)
  case (Int64 ns)
  assume "made a"
  with Int64 have "ns \<noteq> []" by (simp add: made_def)
  moreover have "list_all is_int (map PInt ns)"
    by (induction ns) (simp_all add: is_int_def)
  ultimately show ?thesis
    using Int64 by (simp add: np_array_def nd_list_def comp_def)
next
  case (Float64 rs)
  have "\<not> list_all is_int (map PFloat rs)" if "rs \<noteq> []"
    using that by (cases rs) (simp_all add: is_int_def)
  then show ?thesis
    using Float64 by (auto simp: np_array_def nd_list_def comp_def to_float_def)
qed

lemma length_nd_list_np_array: "length (nd_list (np_array vs)) = length vs"
  by (simp add: np_array_def nd_list_def)

lemma length_nd_flip: "length (nd_list (nd_flip a)) = length (nd_list a)"
  by (cases a) (simp_all add: nd_flip_def nd_list_def)

lemma length_nd_reflect: "length (nd_list (nd_reflect a)) = length (nd_list a)"
  by (cases a) (simp_all add: nd_reflect_def nd_list_def)

lemma pynumbers_map_Some: "pynumbers (map Some vs) = vs"
  by (induction vs) (simp_all add: pynumbers_def)

lemma np_array_objects_None: "None \<in> set xs \<Longrightarrow> np_array_objects xs = xs"
  by (simp add: np_array_objects_def)

lemma np_array_objects_Some:
  "np_array_objects (map Some vs) = map Some (nd_list (np_array vs))"
proof -
  have "None \<notin> set (map Some vs)" by auto
  moreover have "List.map_filter (\<lambda>z. z) (map Some vs) = vs"
    using pynumbers_map_Some [of vs] by (simp add: pynumbers_def)
  ultimately show ?thesis by (simp add: np_array_objects_def del: set_map)
qed

lemma np_array_objects_made:
  "made a \<Longrightarrow> np_array_objects (map Some (nd_list a)) = map Some (nd_list a)"
  by (simp add: np_array_objects_Some np_array_nd_list)

lemma length_arrow_x: "length (arrow_x c w) = 8"
  by (simp add: arrow_x_def Let_def)

lemma length_arrow_y: "length (arrow_y y h w) = 8"
  by (simp add: arrow_y_def Let_def)

lemma arrow_head_append: "length hs = 8 \<Longrightarrow> arrow_head (bs @ hs) = hs"
  by (simp add: arrow_head_def)

lemma arrow_body_append: "length hs = 8 \<Longrightarrow> arrow_body (bs @ hs) = bs"
  by (simp add: arrow_body_def)

text \<open>With two spans or more the body of an arrow holds a \<open>None\<close>, in \<open>x\<close> and in \<open>y\<close>.\<close>

lemma Arrow_body_None:
  "0 < n \<Longrightarrow>
   None \<in> set (fst (fold (Arrow_step coords y height) [0..<n] acc))
   \<and> None \<in> set (snd (fold (Arrow_step coords y height) [0..<n] acc))"
  by (cases n) (simp_all add: Arrow_step_def)

lemma length_mirrored_x: "length (mirrored_x hs) = length hs"
  by (simp add: mirrored_x_def length_nd_flip length_nd_reflect length_nd_list_np_array)

lemma length_flipped_y: "length (flipped_y hs) = length hs"
  by (simp add: flipped_y_def length_nd_flip length_nd_list_np_array)

lemma mirrored_x_array: "mirrored_x (nd_list (np_array hs)) = mirrored_x hs"
  by (simp add: mirrored_x_def np_array_nd_list made_np_array)

lemma flipped_y_array: "flipped_y (nd_list (np_array hs)) = flipped_y hs"
  by (simp add: flipped_y_def np_array_nd_list made_np_array)

lemma np_array_objects_mirrored_x:
  "np_array_objects (map Some (mirrored_x hs)) = map Some (mirrored_x hs)"
  unfolding mirrored_x_def
  by (intro np_array_objects_made made_nd_flip made_nd_reflect made_np_array)

lemma np_array_objects_flipped_y:
  "np_array_objects (map Some (flipped_y hs)) = map Some (flipped_y hs)"
  unfolding flipped_y_def
  by (intro np_array_objects_made made_nd_flip made_np_array)

lemma mirror_head_append:
  assumes "length hx = 8" "length hy = 8"
  shows "mirror_head (bx @ map Some hx, bys @ map Some hy) =
           (bx @ map Some (mirrored_x hx), bys @ map Some (flipped_y hy))"
  using assms
  by (simp add: mirror_head_def arrow_head_append arrow_body_append pynumbers_map_Some
      mirrored_x_def flipped_y_def)

lemma Arrow_init_empty: "Arrow_init [] y height w reverse = Inl IndexError"
  by (simp add: Arrow_init_def)

text \<open>
  The two arrows in closed form: the arrays of the forward arrow end in a head of eight
  numbers, and the reversed arrow has the same body and the mirrored head.
\<close>

lemma Arrow_init_forms:
  assumes "coords \<noteq> []"
  shows "\<exists>bx bys hx hy. length hx = 8 \<and> length hy = 8
           \<and> Arrow_init coords y height w False = Inr (bx @ map Some hx, bys @ map Some hy)
           \<and> Arrow_init coords y height w True
               = Inr (bx @ map Some (mirrored_x hx), bys @ map Some (flipped_y hy))"
proof (cases "length coords = 1")
  case True
  let ?ax = "arrow_x (last coords) w" and ?ay = "arrow_y y height w"
  let ?hx = "nd_list (np_array ?ax)" and ?hy = "nd_list (np_array ?ay)"
  have body: "fold (Arrow_step coords y height) [0..<length coords - 1] ([], []) = ([], [])"
    using True by simp
  have f: "Arrow_init coords y height w False = Inr ([] @ map Some ?hx, [] @ map Some ?hy)"
    using assms body by (simp add: Arrow_init_def np_array_objects_Some)
  have "Arrow_init coords y height w True =
          Inr (np_array_objects (map Some (mirrored_x ?ax)),
               np_array_objects (map Some (flipped_y ?ay)))"
    using assms body by (simp add: Arrow_init_def mirrored_x_def flipped_y_def)
  then have r: "Arrow_init coords y height w True =
          Inr ([] @ map Some (mirrored_x ?hx), [] @ map Some (flipped_y ?hy))"
    by (simp add: np_array_objects_mirrored_x np_array_objects_flipped_y
        mirrored_x_array flipped_y_array)
  have "length ?hx = 8" "length ?hy = 8"
    by (simp_all add: length_nd_list_np_array length_arrow_x length_arrow_y)
  with f r show ?thesis by blast
next
  case False
  let ?ax = "arrow_x (last coords) w" and ?ay = "arrow_y y height w"
  let ?body = "fold (Arrow_step coords y height) [0..<length coords - 1] ([], [])"
  from False assms have "0 < length coords - 1"
    by (cases coords) auto
  then have n: "None \<in> set (fst ?body)" "None \<in> set (snd ?body)"
    using Arrow_body_None by blast+
  have f: "Arrow_init coords y height w False
             = Inr (fst ?body @ map Some ?ax, snd ?body @ map Some ?ay)"
    using assms n by (simp add: Arrow_init_def Let_def np_array_objects_None)
  have r: "Arrow_init coords y height w True
             = Inr (fst ?body @ map Some (mirrored_x ?ax), snd ?body @ map Some (flipped_y ?ay))"
    using assms n
    by (simp add: Arrow_init_def Let_def np_array_objects_None mirrored_x_def flipped_y_def)
  have "length ?ax = 8" "length ?ay = 8"
    by (simp_all add: length_arrow_x length_arrow_y)
  with f r show ?thesis by blast
qed

lemma Arrow_init_reverse:
  "Arrow_init coords y height w True =
     (case Arrow_init coords y height w False of
        Inl e \<Rightarrow> Inl e | Inr s \<Rightarrow> Inr (mirror_head s))"
proof (cases "coords = []")
  case True
  then show ?thesis by (simp add: Arrow_init_empty)
next
  case False
  from Arrow_init_forms [OF False, of y height w]
  obtain bx bys hx hy where h: "length hx = 8" "length hy = 8"
    "Arrow_init coords y height w False = Inr (bx @ map Some hx, bys @ map Some hy)"
    "Arrow_init coords y height w True
       = Inr (bx @ map Some (mirrored_x hx), bys @ map Some (flipped_y hy))"
    by blast
  then show ?thesis by (simp add: mirror_head_append)
qed

text \<open>Reflecting a finite set of numbers about its own extent keeps the extent.\<close>

lemma Min_reflect:
  fixes A :: "rat set"
  assumes "finite A" "A \<noteq> {}"
  shows "Min ((\<lambda>v. Max A - v + Min A) ` A) = Min A"
proof (rule Min_eqI)
  show "finite ((\<lambda>v. Max A - v + Min A) ` A)" using assms by simp
  show "Min A \<le> z" if "z \<in> (\<lambda>v. Max A - v + Min A) ` A" for z
  proof -
    from that obtain v where v: "v \<in> A" "z = Max A - v + Min A" by blast
    then have "v \<le> Max A" using assms by simp
    with v show ?thesis by simp
  qed
  have "Max A \<in> A" using assms by (rule Max_in)
  then show "Min A \<in> (\<lambda>v. Max A - v + Min A) ` A"
    by (rule rev_image_eqI) simp
qed

lemma Max_reflect:
  fixes A :: "rat set"
  assumes "finite A" "A \<noteq> {}"
  shows "Max ((\<lambda>v. Max A - v + Min A) ` A) = Max A"
proof (rule Max_eqI)
  show "finite ((\<lambda>v. Max A - v + Min A) ` A)" using assms by simp
  show "z \<le> Max A" if "z \<in> (\<lambda>v. Max A - v + Min A) ` A" for z
  proof -
    from that obtain v where v: "v \<in> A" "z = Max A - v + Min A" by blast
    then have "Min A \<le> v" using assms by simp
    with v show ?thesis by simp
  qed
  have "Min A \<in> A" using assms by (rule Min_in)
  then show "Max A \<in> (\<lambda>v. Max A - v + Min A) ` A"
    by (rule rev_image_eqI) simp
qed

lemma of_int_Max: "finite A \<Longrightarrow> A \<noteq> {} \<Longrightarrow> (of_int (Max A) :: rat) = Max (of_int ` A)"
  by (rule mono_Max_commute) (auto simp: mono_def)

lemma of_int_Min: "finite A \<Longrightarrow> A \<noteq> {} \<Longrightarrow> (of_int (Min A) :: rat) = Min (of_int ` A)"
  by (rule mono_Min_commute) (auto simp: mono_def)

text \<open>An exact reflection ns the reflection of the values.\<close>

lemma val_mirrored_x:
  assumes "hs \<noteq> []" "exact_reflection hs"
  shows "map val (mirrored_x hs) =
           rev (map (\<lambda>v. Max (set (map val hs)) - v + Min (set (map val hs))) (map val hs))"
proof (cases "np_array hs")
  case (Int64 ns)
  then have ints: "list_all is_int hs" and ns: "ns = map (\<lambda>a. case a of PInt i \<Rightarrow> i | PFloat r \<Rightarrow> 0) hs"
    by (auto simp: np_array_def split: if_splits)
  have v: "map val hs = map of_int ns"
    unfolding ns using ints
    by (induction hs) (auto simp: val_def is_int_def split: pynum.splits)
  have ne: "set ns \<noteq> {}" using assms(1) ns by simp
  have "set (map val hs) = of_int ` set ns" using v by simp
  then have mm: "Max (set (map val hs)) = of_int (Max (set ns))"
    "Min (set (map val hs)) = of_int (Min (set ns))"
    using ne by (simp_all add: of_int_Max of_int_Min del: set_map)
  show ?thesis
    unfolding mm
    by (simp add: mirrored_x_def Int64 nd_reflect_def nd_flip_def nd_list_def v rev_map
        comp_def val_def)
next
  case (Float64 rs)
  have "exact_reflection hs" by fact
  then have
    "rs = map val hs
     \<and> list_all (\<lambda>v. fl64 (Max (set rs) - v) = Max (set rs) - v
                      \<and> fl64 (Max (set rs) - v + Min (set rs)) = Max (set rs) - v + Min (set rs))
           rs"
    unfolding exact_reflection_def Float64 ndarray.case .
  then have rs: "rs = map val hs"
    and ex: "\<forall>v \<in> set rs. fl64 (Max (set rs) - v) = Max (set rs) - v
                \<and> fl64 (Max (set rs) - v + Min (set rs)) = Max (set rs) - v + Min (set rs)"
    unfolding list_all_iff by blast+
  from ex have "map (\<lambda>v. fl64 (fl64 (Max (set rs) - v) + Min (set rs))) rs
      = map (\<lambda>v. Max (set rs) - v + Min (set rs)) rs"
    by simp
  then have "map val (mirrored_x hs) = rev (map (\<lambda>v. Max (set rs) - v + Min (set rs)) rs)"
    by (simp add: mirrored_x_def Float64 nd_reflect_def nd_flip_def nd_list_def rev_map
        comp_def val_def)
  then show ?thesis
    unfolding rs .
qed

lemma x_extent_mirrored:
  assumes "hs \<noteq> []" "exact_reflection hs"
  shows "x_extent (map Some (mirrored_x hs)) = x_extent (map Some hs)"
proof -
  let ?A = "set (map val hs)"
  have ne: "?A \<noteq> {}" using assms(1) by simp
  have "set (map val (mirrored_x hs)) = (\<lambda>v. Max ?A - v + Min ?A) ` ?A"
    unfolding val_mirrored_x [OF assms] by (simp add: image_image)
  then show ?thesis
    using Min_reflect [OF _ ne] Max_reflect [OF _ ne]
    by (simp add: x_extent_def pynumbers_map_Some del: set_map)
qed

text \<open>
  C2 (as stated): for every coordinate list, the head of the arrow built with
  \<open>reverse=True\<close> is the mirror image of the forward head and spans exactly the same
  \<open>[min, max]\<close> x interval. This fails where the reflection rounds: for the one span
  \<open>(1, 2**53 + 2)\<close> with \<open>arrow_head_w = 0.25\<close> the forward head spans
  \<open>[1, 9007199254740994]\<close>, and the reversed head, computed as \<open>max - x + min\<close> on a
  \<open>float64\<close> array, spans \<open>[1, 9007199254740992]\<close>.
\<close>

theorem C2_arrow_reversal_counterexample:
  "head_extent (Arrow_init [(PInt 1, PInt 9007199254740994)] (PInt 0) (PFloat (1 / 4))
                  (PFloat (1 / 4)) False)
     = Some (1, 9007199254740994)
   \<and> head_extent (Arrow_init [(PInt 1, PInt 9007199254740994)] (PInt 0) (PFloat (1 / 4))
                  (PFloat (1 / 4)) True)
     = Some (1, 9007199254740992)"
  by code_simp

text \<open>
  C2 (amended): for every coordinate list, \<open>y\<close>, \<open>height\<close> and \<open>arrow_head_w\<close>, the arrow
  built with \<open>reverse=True\<close> is the arrow built with \<open>reverse=False\<close> with its head
  mirrored in numpy's arithmetic: the head is turned into an array, every x goes to
  \<open>max - x + min\<close> of that array (each of the two operations rounded on a \<open>float64\<close>
  array), the points are put in reversed order and the y values are reversed; where the
  list is empty both calls raise the same IndexError. For a list that is not empty both
  arrows are built, and the reversed head spans the same \<open>[min, max]\<close> x interval as the
  forward head whenever that reflection is exact (no value changes when the head becomes
  an array and neither operation rounds), as it always is on an integer array.
\<close>

theorem C2_arrow_reversal:
  "Arrow_init coords y height w True =
     (case Arrow_init coords y height w False of
        Inl e \<Rightarrow> Inl e | Inr s \<Rightarrow> Inr (mirror_head s))
   \<and> (coords \<noteq> [] \<longrightarrow>
        (\<exists>f r. Arrow_init coords y height w False = Inr f
             \<and> Arrow_init coords y height w True = Inr r
             \<and> r = mirror_head f
             \<and> (exact_reflection (pynumbers (arrow_head (fst f))) \<longrightarrow>
                  x_extent (arrow_head (fst r)) = x_extent (arrow_head (fst f)))))"
proof (intro conjI impI)
  show "Arrow_init coords y height w True =
     (case Arrow_init coords y height w False of
        Inl e \<Rightarrow> Inl e | Inr s \<Rightarrow> Inr (mirror_head s))"
    by (rule Arrow_init_reverse)
next
  assume ne: "coords \<noteq> []"
  from Arrow_init_forms [OF ne, of y height w]
  obtain bx bys hx hy where h: "length hx = 8" "length hy = 8"
    and f: "Arrow_init coords y height w False = Inr (bx @ map Some hx, bys @ map Some hy)"
    and r: "Arrow_init coords y height w True
              = Inr (bx @ map Some (mirrored_x hx), bys @ map Some (flipped_y hy))"
    by blast
  let ?f = "(bx @ map Some hx, bys @ map Some hy)"
  let ?r = "(bx @ map Some (mirrored_x hx), bys @ map Some (flipped_y hy))"
  have m: "?r = mirror_head ?f"
    using h by (simp add: mirror_head_append)
  have "x_extent (arrow_head (fst ?r)) = x_extent (arrow_head (fst ?f))"
    if "exact_reflection (pynumbers (arrow_head (fst ?f)))"
  proof -
    from that h have e: "exact_reflection hx"
      by (simp add: arrow_head_append pynumbers_map_Some)
    have "hx \<noteq> []" using h by auto
    then show ?thesis
      using h e by (simp add: arrow_head_append length_mirrored_x x_extent_mirrored)
  qed
  with f r m show "\<exists>f r. Arrow_init coords y height w False = Inr f
             \<and> Arrow_init coords y height w True = Inr r
             \<and> r = mirror_head f
             \<and> (exact_reflection (pynumbers (arrow_head (fst f))) \<longrightarrow>
                  x_extent (arrow_head (fst r)) = x_extent (arrow_head (fst f)))"
    by blast
qed

theorem C2_arrow_reversal_witness:
  "([(PInt 1, PInt 3), (PInt 5, PInt 9)] :: coords) \<noteq> []
   \<and> exact_reflection [PInt 5, PFloat 7, PFloat 7, PInt 9, PFloat 7, PFloat 7, PInt 5, PInt 5]
   \<and> Arrow_init [(PInt 1, PInt 3), (PInt 5, PInt 9)] (PInt 0) (PFloat (1 / 4)) (PFloat (1 / 4))
        False
       = Inr ([Some (PInt 1), Some (PInt 1), Some (PInt 3), Some (PInt 3), Some (PInt 1),
               None, Some (PInt 3), Some (PInt 5), None,
               Some (PInt 5), Some (PFloat 7), Some (PFloat 7), Some (PInt 9),
               Some (PFloat 7), Some (PFloat 7), Some (PInt 5), Some (PInt 5)],
              [Some (PInt 0), Some (PFloat (1 / 4)), Some (PFloat (1 / 4)), Some (PInt 0),
               Some (PInt 0), None, Some (PFloat (1 / 8)), Some (PFloat (1 / 8)), None,
               Some (PInt 0), Some (PInt 0), Some (PFloat (- (1 / 8))), Some (PFloat (1 / 8)),
               Some (PFloat (3 / 8)), Some (PFloat (1 / 4)), Some (PFloat (1 / 4)),
               Some (PInt 0)])
   \<and> Arrow_init [(PInt 1, PInt 3), (PInt 5, PInt 9)] (PInt 0) (PFloat (1 / 4)) (PFloat (1 / 4))
        True
       = Inr ([Some (PInt 1), Some (PInt 1), Some (PInt 3), Some (PInt 3), Some (PInt 1),
               None, Some (PInt 3), Some (PInt 5), None,
               Some (PFloat 9), Some (PFloat 9), Some (PFloat 7), Some (PFloat 7),
               Some (PFloat 5), Some (PFloat 7), Some (PFloat 7), Some (PFloat 9)],
              [Some (PInt 0), Some (PFloat (1 / 4)), Some (PFloat (1 / 4)), Some (PInt 0),
               Some (PInt 0), None, Some (PFloat (1 / 8)), Some (PFloat (1 / 8)), None,
               Some (PFloat 0), Some (PFloat (1 / 4)), Some (PFloat (1 / 4)),
               Some (PFloat (3 / 8)), Some (PFloat (1 / 8)), Some (PFloat (- (1 / 8))),
               Some (PFloat 0), Some (PFloat 0)])
   \<and> head_extent (Arrow_init [(PInt 1, PInt 3), (PInt 5, PInt 9)] (PInt 0) (PFloat (1 / 4))
                    (PFloat (1 / 4)) True)
       = head_extent (Arrow_init [(PInt 1, PInt 3), (PInt 5, PInt 9)] (PInt 0) (PFloat (1 / 4))
                    (PFloat (1 / 4)) False)"
proof -
  let ?cs = "[(PInt 1, PInt 3), (PInt 5, PInt 9)] :: coords"
  let ?F = "([Some (PInt 1), Some (PInt 1), Some (PInt 3), Some (PInt 3), Some (PInt 1),
               None, Some (PInt 3), Some (PInt 5), None,
               Some (PInt 5), Some (PFloat 7), Some (PFloat 7), Some (PInt 9),
               Some (PFloat 7), Some (PFloat 7), Some (PInt 5), Some (PInt 5)],
              [Some (PInt 0), Some (PFloat (1 / 4)), Some (PFloat (1 / 4)), Some (PInt 0),
               Some (PInt 0), None, Some (PFloat (1 / 8)), Some (PFloat (1 / 8)), None,
               Some (PInt 0), Some (PInt 0), Some (PFloat (- (1 / 8))), Some (PFloat (1 / 8)),
               Some (PFloat (3 / 8)), Some (PFloat (1 / 4)), Some (PFloat (1 / 4)),
               Some (PInt 0)])"
  have ne: "?cs \<noteq> []" by simp
  have f: "Arrow_init ?cs (PInt 0) (PFloat (1 / 4)) (PFloat (1 / 4)) False = Inr ?F"
    by code_simp
  have e: "exact_reflection [PInt 5, PFloat 7, PFloat 7, PInt 9, PFloat 7, PFloat 7, PInt 5, PInt 5]"
    by code_simp
  have hd: "pynumbers (arrow_head (fst ?F))
      = [PInt 5, PFloat 7, PFloat 7, PInt 9, PFloat 7, PFloat 7, PInt 5, PInt 5]"
    by (simp add: arrow_head_def pynumbers_def)
  have rv: "mirror_head ?F =
      ([Some (PInt 1), Some (PInt 1), Some (PInt 3), Some (PInt 3), Some (PInt 1),
               None, Some (PInt 3), Some (PInt 5), None,
               Some (PFloat 9), Some (PFloat 9), Some (PFloat 7), Some (PFloat 7),
               Some (PFloat 5), Some (PFloat 7), Some (PFloat 7), Some (PFloat 9)],
              [Some (PInt 0), Some (PFloat (1 / 4)), Some (PFloat (1 / 4)), Some (PInt 0),
               Some (PInt 0), None, Some (PFloat (1 / 8)), Some (PFloat (1 / 8)), None,
               Some (PFloat 0), Some (PFloat (1 / 4)), Some (PFloat (1 / 4)),
               Some (PFloat (3 / 8)), Some (PFloat (1 / 8)), Some (PFloat (- (1 / 8))),
               Some (PFloat 0), Some (PFloat 0)])"
    by code_simp
  from C2_arrow_reversal [of ?cs "PInt 0" "PFloat (1 / 4)" "PFloat (1 / 4)"] ne
  obtain g r where g:
    "Arrow_init ?cs (PInt 0) (PFloat (1 / 4)) (PFloat (1 / 4)) False = Inr g"
    "Arrow_init ?cs (PInt 0) (PFloat (1 / 4)) (PFloat (1 / 4)) True = Inr r"
    "r = mirror_head g"
    "exact_reflection (pynumbers (arrow_head (fst g))) \<longrightarrow>
       x_extent (arrow_head (fst r)) = x_extent (arrow_head (fst g))"
    by blast
  from g(1) f have gF: "g = ?F" by simp
  with g(4) e hd have x: "x_extent (arrow_head (fst r)) = x_extent (arrow_head (fst ?F))"
    by simp
  have t: "Arrow_init ?cs (PInt 0) (PFloat (1 / 4)) (PFloat (1 / 4)) True = Inr (mirror_head ?F)"
    using g(2,3) gF by simp
  have "head_extent (Arrow_init ?cs (PInt 0) (PFloat (1 / 4)) (PFloat (1 / 4)) True)
      = head_extent (Arrow_init ?cs (PInt 0) (PFloat (1 / 4)) (PFloat (1 / 4)) False)"
    using x g(2,3) gF f by (simp add: head_extent_def)
  with ne e f t rv show ?thesis by (simp only: simp_thms)
qed

section \<open>Facts about make_shape\<close>

lemma make_shape_no_coords:
  "make_shape (TypeName t) name None kw = Inl TypeError"
  "make_shape NoType name None kw = Inl TypeError"
  by (simp_all add: make_shape_def resolve_def)

lemma klass_call_errors:
  "klass_call k cs r kw = Inl e \<Longrightarrow> e = IndexError \<or> e = TypeError"
  by (auto simp: klass_call_def Let_def Arrow_init_def Diamond_init_def Rectangle_init_def
      split: if_splits)

lemma build_errors:
  "build ty name cs r kw = Inl e \<Longrightarrow> e = IndexError \<or> e = TypeError \<or> e = AttributeError"
  by (auto simp: build_def Let_def split: type_arg.splits if_splits sum.splits
      dest: klass_call_errors)

lemma resolve_errors:
  "resolve ty name coords = Inl e \<Longrightarrow> e = IndexError \<or> e = TypeError"
  by (auto simp: resolve_def Let_def split: type_arg.splits if_splits option.splits)

lemma make_shape_never_NoCoordinates:
  "make_shape ty name coords kw \<noteq> Inl NoCoordinates"
proof
  assume "make_shape ty name coords kw = Inl NoCoordinates"
  then consider "resolve ty name coords = Inl NoCoordinates"
    | ty' name' cs r where "build ty' name' cs r kw = Inl NoCoordinates"
    by (auto simp: make_shape_def split: sum.splits option.splits prod.splits)
  then show False
  proof cases
    case 1
    then show ?thesis by (auto dest: resolve_errors)
  next
    case 2
    then show ?thesis by (auto dest: build_errors)
  qed
qed

lemma shapes_lookup: "dict_get shapes (lower t) Rectangle = primitive_for t"
  by (simp add: dict_get_def shapes_def primitive_for_def)

text \<open>The call of a class that takes the keywords makes the arrays of its primitive.\<close>

lemma klass_call_arrays:
  "accepts k kw \<Longrightarrow> k \<noteq> Point \<Longrightarrow> klass_call k cs r kw = primitive_arrays k cs r kw"
  by (cases k) (simp_all add: klass_call_def primitive_arrays_def accepts_def Let_def)

lemma primitive_arrays_returns:
  "cs \<noteq> [] \<Longrightarrow> \<exists>xy. primitive_arrays k cs r kw = Inr xy"
  by (cases k)
    (simp_all add: primitive_arrays_def Arrow_init_def Diamond_init_def Rectangle_init_def
      Let_def)

text \<open>
  A returned shape carries the class of its type, the type as name and legend group,
  the given text, and the arrays of its primitive.
\<close>

lemma build_shape:
  assumes "build (TypeName t) name cs r kw = Inr s"
  shows "s_klass s = primitive_for t \<and> s_name s = t \<and> s_legendgroup s = t
         \<and> s_text s = name
         \<and> shape_arrays s = primitive_arrays (primitive_for t) cs r kw"
proof (cases "primitive_for t = Point")
  case True
  with assms show ?thesis
    by (auto simp: build_def Let_def shapes_lookup shape_arrays_def primitive_arrays_def
        split: if_splits)
next
  case False
  with assms obtain xy where xy: "klass_call (primitive_for t) cs r kw = Inr xy"
    and s: "s = \<lparr>s_klass = primitive_for t, s_name = t, s_text = name, s_legendgroup = t,
              s_fillcolor = dict_get (map (\<lambda>(key, c). (key, Some c)) colors) (lower t) None,
              s_x = fst xy, s_y = snd xy\<rparr>"
    by (auto simp: build_def Let_def shapes_lookup split: sum.splits)
  have "accepts (primitive_for t) kw"
  proof (rule ccontr)
    assume "\<not> accepts (primitive_for t) kw"
    with False have "klass_call (primitive_for t) cs r kw = Inl TypeError"
      by (auto simp: klass_call_def accepts_def Let_def split: if_splits)
    with xy show False by simp
  qed
  with False xy have "primitive_arrays (primitive_for t) cs r kw = Inr xy"
    by (simp add: klass_call_arrays)
  with s show ?thesis by (simp add: shape_arrays_def)
qed

lemma build_returns:
  assumes "cs \<noteq> []" "accepts (primitive_for t) kw"
  shows "\<exists>s. build (TypeName t) name cs r kw = Inr s"
proof (cases "primitive_for t = Point")
  case True
  with assms show ?thesis
    by (simp add: build_def Let_def shapes_lookup accepts_def)
next
  case False
  from assms(1) obtain xy where "primitive_arrays (primitive_for t) cs r kw = Inr xy"
    using primitive_arrays_returns by blast
  with False assms(2) have "klass_call (primitive_for t) cs r kw = Inr xy"
    by (simp add: klass_call_arrays)
  with False show ?thesis
    by (simp add: build_def Let_def shapes_lookup)
qed

text \<open>
  C4: a call of \<open>make_shape\<close> with a \<open>type_\<close> that is not a feature and with
  \<open>coords = None\<close> should raise the dedicated error "No coordinates defined". The code
  subscripts \<open>coords\<close> two lines before it tests \<open>coords is None\<close>, so the call raises
  TypeError and the dedicated error is never raised: evaluated at
  \<open>make_shape(type_="gene", name="g1", coords=None)\<close>.
\<close>

theorem C4_missing_coordinates:
  "make_shape (TypeName ''gene'') (Some ''g1'') None no_kwargs = Inl TypeError
   \<and> make_shape (TypeName ''gene'') (Some ''g1'') None no_kwargs \<noteq> Inl NoCoordinates"
  by (simp add: make_shape_def resolve_def)

text \<open>
  C6: \<open>make_shape\<close> converts feature coordinates into the primitive determined by the
  feature type, matched case-insensitively: cds, exon, transcript and gene yield an
  Arrow, snp and snv a Point, variation a Diamond, repeat and every unrecognised type a
  Rectangle. For a type name and a coordinate list that is not empty, and for a feature
  with a useful map and coordinates, a shape is returned, provided the class accepts the
  extra keywords: it has the class of the type, and its \<open>x\<close> and \<open>y\<close> arrays are the ones
  the constructor of that primitive makes from the coordinates. Whatever shape
  \<open>make_shape\<close> returns has the class of its type and the arrays of that primitive.
\<close>

theorem C6_make_shape_primitive:
  "(cs \<noteq> [] \<and> accepts (primitive_for t) kw \<longrightarrow>
      (\<exists>s. make_shape (TypeName t) name (Some cs) kw = Inr (Some s)
          \<and> s_klass s = primitive_for t
          \<and> shape_arrays s
              = primitive_arrays (primitive_for t) cs
                  (val (snd (last cs)) < val (fst (cs ! 0))) kw))
   \<and> (f_useful f \<and> f_coordinates f \<noteq> [] \<and> accepts (primitive_for (f_type f)) kw \<longrightarrow>
      (\<exists>s. make_shape (Feature f) name coords kw = Inr (Some s)
          \<and> s_klass s = primitive_for (f_type f)
          \<and> shape_arrays s
              = primitive_arrays (primitive_for (f_type f)) (f_coordinates f) (f_reverse f) kw))
   \<and> (make_shape ty name coords kw = Inr (Some s') \<longrightarrow>
        s_klass s' = primitive_for (type_name ty)
        \<and> s_name s' = type_name ty \<and> s_legendgroup s' = type_name ty
        \<and> s_text s' = text_of ty name
        \<and> shape_arrays s'
            = primitive_arrays (primitive_for (type_name ty)) (coords_of ty coords)
                (reverse_of ty coords) kw)"
  (is "?typed \<and> ?featured \<and> ?returned")
proof -
  have typed: ?typed
  proof
  assume a: "cs \<noteq> [] \<and> accepts (primitive_for t) kw"
  define r where "r = (val (snd (last cs)) < val (fst (cs ! 0)))"
  from a obtain s where s: "build (TypeName t) name cs r kw = Inr s"
    using build_returns by blast
  note build_shape [OF s]
  moreover have "make_shape (TypeName t) name (Some cs) kw = Inr (Some s)"
    using a s by (auto simp: make_shape_def resolve_def Let_def r_def)
  ultimately show "\<exists>s. make_shape (TypeName t) name (Some cs) kw = Inr (Some s)
          \<and> s_klass s = primitive_for t
          \<and> shape_arrays s
              = primitive_arrays (primitive_for t) cs
                  (val (snd (last cs)) < val (fst (cs ! 0))) kw"
    unfolding r_def by blast
  qed
  have featured: ?featured
  proof
  assume a: "f_useful f \<and> f_coordinates f \<noteq> [] \<and> accepts (primitive_for (f_type f)) kw"
  then obtain s where
    s: "build (TypeName (f_type f)) (f_name f) (f_coordinates f) (f_reverse f) kw = Inr s"
    using build_returns by blast
  note build_shape [OF s]
  moreover have "make_shape (Feature f) name coords kw = Inr (Some s)"
    using a s by (simp add: make_shape_def resolve_def)
  ultimately show "\<exists>s. make_shape (Feature f) name coords kw = Inr (Some s)
          \<and> s_klass s = primitive_for (f_type f)
          \<and> shape_arrays s
              = primitive_arrays (primitive_for (f_type f)) (f_coordinates f) (f_reverse f) kw"
    by blast
  qed
  have returned: ?returned
  proof
  assume m: "make_shape ty name coords kw = Inr (Some s')"
  then have "build (TypeName (type_name ty)) (text_of ty name) (coords_of ty coords)
               (reverse_of ty coords) kw = Inr s'"
    by (auto simp: make_shape_def resolve_def type_name_def text_of_def coords_of_def
        reverse_of_def or_default_def Let_def build_def [of NoType]
        split: type_arg.splits option.splits if_splits sum.splits)
  from build_shape [OF this]
  show "s_klass s' = primitive_for (type_name ty)
        \<and> s_name s' = type_name ty \<and> s_legendgroup s' = type_name ty
        \<and> s_text s' = text_of ty name
        \<and> shape_arrays s'
            = primitive_arrays (primitive_for (type_name ty)) (coords_of ty coords)
                (reverse_of ty coords) kw"
    by simp
  qed
  from typed featured returned show ?thesis by (intro conjI)
qed

theorem C6_make_shape_primitive_witness:
  "([(PInt 9, PInt 5), (PInt 3, PInt 1)] :: coords) \<noteq> []
   \<and> accepts (primitive_for ''Gene'')
         \<lparr>kw_y = None, kw_height = None, kw_arrow_head_w = Some (PFloat (1 / 4))\<rparr>
   \<and> make_shape (TypeName ''Gene'') (Some ''g1'') (Some [(PInt 9, PInt 5), (PInt 3, PInt 1)])
         \<lparr>kw_y = None, kw_height = None, kw_arrow_head_w = Some (PFloat (1 / 4))\<rparr>
       = Inr (Some
           \<lparr>s_klass = Arrow, s_name = ''Gene'', s_text = Some ''g1'', s_legendgroup = ''Gene'',
            s_fillcolor = Some ''rgba(0,0,150,0.5)'',
            s_x = [Some (PInt 5), Some (PInt 5), Some (PInt 9), Some (PInt 9), Some (PInt 5),
                   None, Some (PInt 5), Some (PInt 3), None,
                   Some (PFloat 3), Some (PFloat 3), Some (PFloat 2), Some (PFloat 2),
                   Some (PFloat 1), Some (PFloat 2), Some (PFloat 2), Some (PFloat 3)],
            s_y = [Some (PInt 0), Some (PFloat (1 / 4)), Some (PFloat (1 / 4)), Some (PInt 0),
                   Some (PInt 0), None, Some (PFloat (1 / 8)), Some (PFloat (1 / 8)), None,
                   Some (PFloat 0), Some (PFloat (1 / 4)), Some (PFloat (1 / 4)),
                   Some (PFloat (3 / 8)), Some (PFloat (1 / 8)), Some (PFloat (- (1 / 8))),
                   Some (PFloat 0), Some (PFloat 0)]\<rparr>)
   \<and> (\<exists>s. make_shape (TypeName ''Gene'') (Some ''g1'') (Some [(PInt 9, PInt 5), (PInt 3, PInt 1)])
              \<lparr>kw_y = None, kw_height = None, kw_arrow_head_w = Some (PFloat (1 / 4))\<rparr>
            = Inr (Some s)
          \<and> s_klass s = Arrow
          \<and> shape_arrays s
              = Arrow_init [(PInt 9, PInt 5), (PInt 3, PInt 1)] (PInt 0) (PFloat (1 / 4))
                  (PFloat (1 / 4)) True)
   \<and> (\<exists>s. make_shape (Feature \<lparr>f_useful = True, f_name = Some ''rs1'',
                                 f_coordinates = [(PInt 4, PInt 5)], f_reverse = False,
                                 f_type = ''SNP''\<rparr>) None None no_kwargs
            = Inr (Some s)
          \<and> s_klass s = Point
          \<and> shape_arrays s = Inr ([Some (PInt 4)], [Some (PInt 1)]))"
proof -
  let ?cs = "[(PInt 9, PInt 5), (PInt 3, PInt 1)] :: coords"
  let ?kw = "\<lparr>kw_y = None, kw_height = None, kw_arrow_head_w = Some (PFloat (1 / 4))\<rparr>"
  let ?f = "\<lparr>f_useful = True, f_name = Some ''rs1'', f_coordinates = [(PInt 4, PInt 5)],
             f_reverse = False, f_type = ''SNP''\<rparr>"
  have gene: "primitive_for ''Gene'' = Arrow" and snp: "primitive_for ''SNP'' = Point"
    by (simp_all add: primitive_for_def lower_def lower_char_def)
  have ne: "?cs \<noteq> []" by simp
  have acc: "accepts (primitive_for ''Gene'') ?kw" "accepts (primitive_for ''SNP'') no_kwargs"
    by (simp_all add: gene snp accepts_def no_kwargs_def)
  have explicit: "make_shape (TypeName ''Gene'') (Some ''g1'') (Some ?cs) ?kw
       = Inr (Some
           \<lparr>s_klass = Arrow, s_name = ''Gene'', s_text = Some ''g1'', s_legendgroup = ''Gene'',
            s_fillcolor = Some ''rgba(0,0,150,0.5)'',
            s_x = [Some (PInt 5), Some (PInt 5), Some (PInt 9), Some (PInt 9), Some (PInt 5),
                   None, Some (PInt 5), Some (PInt 3), None,
                   Some (PFloat 3), Some (PFloat 3), Some (PFloat 2), Some (PFloat 2),
                   Some (PFloat 1), Some (PFloat 2), Some (PFloat 2), Some (PFloat 3)],
            s_y = [Some (PInt 0), Some (PFloat (1 / 4)), Some (PFloat (1 / 4)), Some (PInt 0),
                   Some (PInt 0), None, Some (PFloat (1 / 8)), Some (PFloat (1 / 8)), None,
                   Some (PFloat 0), Some (PFloat (1 / 4)), Some (PFloat (1 / 4)),
                   Some (PFloat (3 / 8)), Some (PFloat (1 / 8)), Some (PFloat (- (1 / 8))),
                   Some (PFloat 0), Some (PFloat 0)]\<rparr>)"
    by code_simp
  have typed: "\<exists>s. make_shape (TypeName ''Gene'') (Some ''g1'') (Some ?cs) ?kw = Inr (Some s)
          \<and> s_klass s = Arrow
          \<and> shape_arrays s
              = Arrow_init ?cs (PInt 0) (PFloat (1 / 4)) (PFloat (1 / 4)) True"
    using C6_make_shape_primitive [of ?cs "''Gene''" ?kw "Some ''g1''"] ne acc(1)
    by (simp add: gene primitive_arrays_def or_default_def default_y_def default_height_def
        val_def)
  have featured: "\<exists>s. make_shape (Feature ?f) None None no_kwargs = Inr (Some s)
          \<and> s_klass s = Point
          \<and> shape_arrays s = Inr ([Some (PInt 4)], [Some (PInt 1)])"
    using C6_make_shape_primitive [where kw = no_kwargs and name = None and coords = None
      and f = ?f] acc(2)
    by (simp add: snp primitive_arrays_def Point_init_def pmin_def val_def)
  from ne acc(1) explicit typed featured show ?thesis
    by (intro conjI)
qed

text \<open>The table of the claim, one line per name, in mixed case.\<close>

lemma primitive_for_examples:
  "primitive_for ''CDS'' = Arrow"
  "primitive_for ''Exon'' = Arrow"
  "primitive_for ''transcript'' = Arrow"
  "primitive_for ''GENE'' = Arrow"
  "primitive_for ''snp'' = Point"
  "primitive_for ''SNV'' = Point"
  "primitive_for ''Variation'' = Diamond"
  "primitive_for ''repeat'' = Rectangle"
  "primitive_for ''misc_feature'' = Rectangle"
  by (simp_all add: primitive_for_def lower_def lower_char_def)

text \<open>A rectangle over two spans and a diamond over one, point by point.\<close>

lemma make_shape_rectangle_example:
  "make_shape (TypeName ''repeat'') None (Some [(PInt 2, PInt 6), (PFloat (15 / 2), PInt 9)])
     no_kwargs
   = Inr (Some
       \<lparr>s_klass = Rectangle, s_name = ''repeat'', s_text = None, s_legendgroup = ''repeat'',
        s_fillcolor = None,
        s_x = [Some (PInt 2), Some (PInt 2), Some (PInt 6), Some (PInt 6), Some (PInt 2),
               None, Some (PInt 6), Some (PFloat (15 / 2)), None,
               Some (PFloat (15 / 2)), Some (PFloat (15 / 2)), Some (PFloat 9),
               Some (PFloat 9), Some (PFloat (15 / 2))],
        s_y = [Some (PInt 0), Some (PFloat (1 / 4)), Some (PFloat (1 / 4)), Some (PInt 0),
               Some (PInt 0), None, Some (PFloat (1 / 8)), Some (PFloat (1 / 8)), None,
               Some (PInt 0), Some (PFloat (1 / 4)), Some (PFloat (1 / 4)), Some (PInt 0),
               Some (PInt 0)]\<rparr>)"
  by code_simp

lemma make_shape_diamond_example:
  "make_shape (TypeName ''Variation'') None (Some [(PInt 2, PInt 6)]) no_kwargs
   = Inr (Some
       \<lparr>s_klass = Diamond, s_name = ''Variation'', s_text = None,
        s_legendgroup = ''Variation'', s_fillcolor = None,
        s_x = [Some (PFloat 2), Some (PFloat 4), Some (PFloat 6), Some (PFloat 4),
               Some (PFloat 2)],
        s_y = [Some (PFloat 0), Some (PFloat (1 / 8)), Some (PFloat 0),
               Some (PFloat (- (1 / 8))), Some (PFloat 0)]\<rparr>)"
  by code_simp

text \<open>A feature whose map is not useful gives no shape and no error.\<close>

lemma make_shape_not_useful:
  "\<not> f_useful f \<Longrightarrow> make_shape (Feature f) name coords kw = Inr None"
  by (simp add: make_shape_def resolve_def)

section \<open>Facts about Drawable\<close>

lemma py_index_absent: "v \<notin> set xs \<Longrightarrow> py_index xs v = Inl ValueError"
  by (induction xs) auto

lemma traces_fold_add_trace: "d_traces (fold add_trace ts d) = d_traces d @ ts"
  by (induction ts arbitrary: d) (simp_all add: add_trace_def)

text \<open>
  \<open>figure\<close> in closed form: \<open>data\<close> is the trace list as it stands once the hook has run,
  or the list holding one empty dictionary when that list is empty.
\<close>

lemma figure_built:
  assumes "(if d_traces d = [] then (case hook of None \<Rightarrow> Inr d | Some b \<Rightarrow> b d) else Inr d)
             = Inr d1"
  shows "\<exists>fig d'. figure hook d = Inr (fig, d')
           \<and> map fst fig = [''data'', ''layout'']
           \<and> map_of fig ''data'' = Some (Data (if d_traces d1 = [] then [[]] else d_traces d1))
           \<and> d_traces d' = d_traces d1"
  using assms by (simp add: figure_def Let_def)

lemma figure_raises:
  assumes "d_traces d = []" "b d = Inl e"
  shows "figure (Some b) d = Inl e"
  using assms by (simp add: figure_def)

text \<open>
  C5 (as stated): for every Drawable, the \<open>data\<close> value of \<open>figure\<close> is exactly the
  sequence of traces. This fails for a Drawable without traces: its trace list is empty,
  and \<open>data\<close> is the list holding one empty dictionary.
\<close>

theorem C5_figure_data_counterexample:
  "d_traces (Drawable_init None \<lparr>l_xaxis_title = None, l_yaxis_title = None\<rparr> None None) = []
   \<and> figure_data
        (figure None (Drawable_init None \<lparr>l_xaxis_title = None, l_yaxis_title = None\<rparr>
           None None))
      = Some [[]]
   \<and> figure_data
        (figure None (Drawable_init None \<lparr>l_xaxis_title = None, l_yaxis_title = None\<rparr>
           None None))
      \<noteq> Some (d_traces
           (Drawable_init None \<lparr>l_xaxis_title = None, l_yaxis_title = None\<rparr> None None))"
  by (simp add: figure_def figure_data_def Drawable_init_def or_default_def Let_def)

text \<open>
  C5 (amended): for every object whose \<open>figure\<close> property is the one of \<open>Drawable\<close>
  (Drawable itself and the subclasses that do not replace it; \<open>AnnotatedDrawable\<close> does):
  when the trace list is empty and the object has a \<open>_build_fig\<close> hook, the hook runs
  first, and what it raises is raised; otherwise \<open>figure\<close> returns a mapping with a
  \<open>data\<close> key and a \<open>layout\<close> key, and the \<open>data\<close> value is exactly the trace list as it
  then stands, or the list holding one empty dictionary when that list is empty. On an
  object without the hook, and on one that has traces, the trace list is the one it had,
  followed by the traces appended by \<open>add_trace\<close> in the order of the calls.
\<close>

theorem C5_figure_data:
  "(hook = None \<or> d_traces d @ ts \<noteq> [] \<longrightarrow>
      (\<exists>fig d'. figure hook (fold add_trace ts d) = Inr (fig, d')
         \<and> map fst fig = [''data'', ''layout'']
         \<and> map_of fig ''data''
             = Some (Data (if d_traces d @ ts = [] then [[]] else d_traces d @ ts))
         \<and> d_traces d' = d_traces d @ ts))
   \<and> (d_traces d = [] \<and> b d = Inr d1 \<longrightarrow>
      (\<exists>fig d'. figure (Some b) d = Inr (fig, d')
         \<and> map fst fig = [''data'', ''layout'']
         \<and> map_of fig ''data'' = Some (Data (if d_traces d1 = [] then [[]] else d_traces d1))
         \<and> d_traces d' = d_traces d1))
   \<and> (d_traces d = [] \<and> b d = Inl e \<longrightarrow> figure (Some b) d = Inl e)
   \<and> d_traces (fold add_trace ts d) = d_traces d @ ts"
  (is "?plain \<and> ?hooked \<and> ?raised \<and> ?appended")
proof -
  have plain: ?plain
  proof
    assume a: "hook = None \<or> d_traces d @ ts \<noteq> []"
    let ?d = "fold add_trace ts d"
    have "(if d_traces ?d = [] then (case hook of None \<Rightarrow> Inr ?d | Some b \<Rightarrow> b ?d) else Inr ?d)
            = Inr ?d"
      using a by (auto simp: traces_fold_add_trace)
    from figure_built [OF this]
    show "\<exists>fig d'. figure hook (fold add_trace ts d) = Inr (fig, d')
         \<and> map fst fig = [''data'', ''layout'']
         \<and> map_of fig ''data''
             = Some (Data (if d_traces d @ ts = [] then [[]] else d_traces d @ ts))
         \<and> d_traces d' = d_traces d @ ts"
      unfolding traces_fold_add_trace .
  qed
  have hooked: ?hooked
  proof
    assume a: "d_traces d = [] \<and> b d = Inr d1"
    then have "(if d_traces d = [] then (case Some b of None \<Rightarrow> Inr d | Some b \<Rightarrow> b d)
                else Inr d) = Inr d1"
      by simp
    from figure_built [OF this]
    show "\<exists>fig d'. figure (Some b) d = Inr (fig, d')
         \<and> map fst fig = [''data'', ''layout'']
         \<and> map_of fig ''data'' = Some (Data (if d_traces d1 = [] then [[]] else d_traces d1))
         \<and> d_traces d' = d_traces d1" .
  qed
  have raised: ?raised
    by (simp add: figure_raises)
  have appended: ?appended
    by (rule traces_fold_add_trace)
  from plain hooked raised appended show ?thesis by (intro conjI)
qed

theorem C5_figure_data_witness:
  "(\<exists>fig d'. figure None
        (fold add_trace [[(''name'', PStr ''a'')], [(''name'', PStr ''b'')]]
           (Drawable_init None \<lparr>l_xaxis_title = None, l_yaxis_title = None\<rparr> None None))
        = Inr (fig, d')
      \<and> map fst fig = [''data'', ''layout'']
      \<and> map_of fig ''data'' = Some (Data [[(''name'', PStr ''a'')], [(''name'', PStr ''b'')]])
      \<and> d_traces d' = [[(''name'', PStr ''a'')], [(''name'', PStr ''b'')]])
   \<and> (\<exists>fig d'. figure (Some (\<lambda>d. Inr (add_trace [(''name'', PStr ''built'')] d)))
        (Drawable_init None \<lparr>l_xaxis_title = None, l_yaxis_title = None\<rparr> None None)
        = Inr (fig, d')
      \<and> map_of fig ''data'' = Some (Data [[(''name'', PStr ''built'')]]))"
proof -
  let ?d = "Drawable_init None \<lparr>l_xaxis_title = None, l_yaxis_title = None\<rparr> None None"
  let ?b = "\<lambda>d. Inr (add_trace [(''name'', PStr ''built'')] d) :: error + drawable"
  have t: "d_traces ?d = []"
    by (simp add: Drawable_init_def or_default_def)
  have bd: "d_traces (add_trace [(''name'', PStr ''built'')] ?d) = [[(''name'', PStr ''built'')]]"
    by (simp add: add_trace_def t)
  have first: "\<exists>fig d'. figure None
        (fold add_trace [[(''name'', PStr ''a'')], [(''name'', PStr ''b'')]] ?d) = Inr (fig, d')
      \<and> map fst fig = [''data'', ''layout'']
      \<and> map_of fig ''data'' = Some (Data [[(''name'', PStr ''a'')], [(''name'', PStr ''b'')]])
      \<and> d_traces d' = [[(''name'', PStr ''a'')], [(''name'', PStr ''b'')]]"
    using C5_figure_data [of None ?d "[[(''name'', PStr ''a'')], [(''name'', PStr ''b'')]]"]
    by (simp add: t)
  have second: "\<exists>fig d'. figure (Some ?b) ?d = Inr (fig, d')
      \<and> map_of fig ''data'' = Some (Data [[(''name'', PStr ''built'')]])"
    using C5_figure_data [where d = ?d and b = ?b and hook = None and ts = "[]"
        and ?d1.0 = "add_trace [(''name'', PStr ''built'')] ?d"]
    by (simp add: t bd) blast
  from first second show ?thesis by (intro conjI)
qed

text \<open>All traces named: the titles are the names, in order.\<close>

lemma get_titles_named:
  "list_all has_name trs \<Longrightarrow>
   get_titles trs = Inr (List.map_filter (\<lambda>tr. map_of tr ''name'') trs)"
  by (induction trs) (auto simp: has_name_def getattr_name_def)

lemma get_titles_unnamed:
  "\<not> list_all has_name trs \<Longrightarrow> get_titles trs = Inl AttributeError"
  by (induction trs)
    (auto simp: has_name_def getattr_name_def split: sum.splits option.splits)

text \<open>
  C10 (as stated): for every Drawable whose trace names do not contain the given title,
  \<open>pop_trace(title)\<close> returns \<open>None\<close> and raises nothing. This fails when a trace has no
  \<open>name\<close> attribute: with the traces \<open>{name: a}\<close> and \<open>{type: scatter}\<close> no trace name is
  \<open>b\<close>, and \<open>pop_trace("b")\<close> raises AttributeError, which the \<open>except ValueError\<close> does
  not catch.
\<close>

theorem C10_pop_trace_absent_counterexample:
  "PStr ''b'' \<notin> set (trace_names
       (Drawable_init (Some [[(''name'', PStr ''a'')], [(''type'', PStr ''scatter'')]])
          \<lparr>l_xaxis_title = None, l_yaxis_title = None\<rparr> None None))
   \<and> pop_trace
       (Drawable_init (Some [[(''name'', PStr ''a'')], [(''type'', PStr ''scatter'')]])
          \<lparr>l_xaxis_title = None, l_yaxis_title = None\<rparr> None None) (PStr ''b'')
     = Inl AttributeError"
  by (simp add: trace_names_def pop_trace_def get_trace_titles_def Drawable_init_def
      or_default_def getattr_name_def)

text \<open>
  C10 (amended): for every Drawable whose traces all have a \<open>name\<close> attribute and whose
  trace names do not contain the given title, \<open>pop_trace(title)\<close> returns \<open>None\<close> and
  leaves the trace list (the whole Drawable) unchanged; no exception is raised and no
  warning is issued.
\<close>

theorem C10_pop_trace_absent:
  assumes "list_all has_name (d_traces d)" "title \<notin> set (trace_names d)"
  shows "pop_trace d title = Inr \<lparr>p_returned = None, p_drawable = d, p_warnings = []\<rparr>"
  using assms
  by (simp add: pop_trace_def get_trace_titles_def get_titles_named trace_names_def
      py_index_absent)

theorem C10_pop_trace_absent_witness:
  "list_all has_name
     (d_traces (Drawable_init (Some [[(''name'', PStr ''a'')], [(''name'', PNone)]])
        \<lparr>l_xaxis_title = None, l_yaxis_title = None\<rparr> None None))
   \<and> PStr ''b'' \<notin> set (trace_names
        (Drawable_init (Some [[(''name'', PStr ''a'')], [(''name'', PNone)]])
           \<lparr>l_xaxis_title = None, l_yaxis_title = None\<rparr> None None))
   \<and> pop_trace (Drawable_init (Some [[(''name'', PStr ''a'')], [(''name'', PNone)]])
       \<lparr>l_xaxis_title = None, l_yaxis_title = None\<rparr> None None) (PStr ''b'')
     = Inr \<lparr>p_returned = None,
            p_drawable = Drawable_init (Some [[(''name'', PStr ''a'')], [(''name'', PNone)]])
               \<lparr>l_xaxis_title = None, l_yaxis_title = None\<rparr> None None,
            p_warnings = []\<rparr>"
proof -
  let ?d = "Drawable_init (Some [[(''name'', PStr ''a'')], [(''name'', PNone)]])
       \<lparr>l_xaxis_title = None, l_yaxis_title = None\<rparr> None None"
  have t: "list_all has_name (d_traces ?d)"
    by (simp add: Drawable_init_def or_default_def has_name_def)
  have n: "PStr ''b'' \<notin> set (trace_names ?d)"
    by (simp add: trace_names_def Drawable_init_def or_default_def)
  from t n C10_pop_trace_absent [OF t n] show ?thesis by (intro conjI)
qed

text \<open>
  A trace without a name makes every call of \<open>pop_trace\<close> raise AttributeError, and a
  title that is there has the first trace carrying it removed and returned.
\<close>

lemma pop_trace_unnamed:
  "\<not> list_all has_name (d_traces d) \<Longrightarrow> pop_trace d title = Inl AttributeError"
  by (simp add: pop_trace_def get_trace_titles_def get_titles_unnamed)

lemma pop_trace_present_example:
  "pop_trace (Drawable_init (Some [[(''name'', PStr ''a'')], [(''name'', PStr ''b'')]])
       \<lparr>l_xaxis_title = None, l_yaxis_title = None\<rparr> None None) (PStr ''b'')
     = Inr \<lparr>p_returned = Some [(''name'', PStr ''b'')],
            p_drawable = Drawable_init (Some [[(''name'', PStr ''a'')]])
               \<lparr>l_xaxis_title = None, l_yaxis_title = None\<rparr> None None,
            p_warnings = []\<rparr>"
  by (simp add: pop_trace_def get_trace_titles_def Drawable_init_def or_default_def
      getattr_name_def)

section \<open>Facts about the two-track layout\<close>

lemma track_max_Max:
  "\<forall>x \<in> set xs. numbers x \<noteq> [] \<Longrightarrow>
   track_max xs m = Inr (Max (insert m (set (concat (map numbers xs)))))"
proof (induction xs arbitrary: m)
  case Nil
  then show ?case by simp
next
  case (Cons x xs)
  let ?A = "set (numbers x)" and ?S = "set (concat (map numbers xs))"
  have ne: "?A \<noteq> {}" using Cons.prems by simp
  have "Max (insert (max (Max ?A) m) ?S) = Max (insert m (?A \<union> ?S))"
  proof -
    have "Max (insert m (?A \<union> ?S)) = Max (?A \<union> insert m ?S)" by simp
    also have "\<dots> = max (Max ?A) (Max (insert m ?S))"
      using ne by (intro Max_Un) simp_all
    also have "\<dots> = Max (insert (max (Max ?A) m) ?S)"
      by (cases "?S = {}") (simp_all add: max.assoc)
    finally show ?thesis by simp
  qed
  then show ?case using Cons by simp
qed

lemma track_extent_positive:
  "1 \<le> track_extent xs"
proof -
  have "(0::rat) \<le> Max (insert 0 (set (concat (map numbers xs))))"
    by simp
  then show ?thesis by (simp add: track_extent_def py_int_def)
qed

lemma build_2x2_fig_closed_form:
  assumes "\<forall>x \<in> set left_xs. numbers x \<noteq> []" "\<forall>y \<in> set bottom_ys. numbers y \<noteq> []"
  shows "build_2x2_fig own left_xs bottom_ys =
     (let l = track_extent left_xs; b = track_extent bottom_ys;
          xd = or_default (own_xaxis own) (0, 99 / 1000);
          yd = or_default (own_yaxis3 own) (0, 99 / 1000);
          xu = of_int l / of_int (min l b) * snd xd;
          yu = of_int b / of_int (min l b) * snd yd
      in Inr \<lparr>r_left_range = (0, l), r_bottom_range = (0, b),
              r_domains = \<lparr>dom_xaxis = (fst xd, xu),
                            dom_xaxis2 = (xu + 1 / 100, 1), dom_xaxis3 = (xu + 1 / 100, 1),
                            dom_yaxis = (yu + 1 / 100, 1), dom_yaxis2 = (yu + 1 / 100, 1),
                            dom_yaxis3 = (fst yd, yu)\<rparr>\<rparr>)"
  using assms
  by (simp add: build_2x2_fig_def track_max_Max track_extent_def Let_def union_domains_def
      base_domains_def)

text \<open>
  C8 (as stated): the upper bound of the left track's x-axis domain is the base upper
  bound 0.099 scaled by the ratio of the left extent to the smaller extent. This fails
  when the drawable's own layout sets a domain for \<open>xaxis\<close>: the merged layout is what is
  scaled. With the own domain \<open>[0, 0.2]\<close>, a left track reaching 2.5 (extent 3) and a
  bottom track reaching 0.5 (extent 1), the upper bound is 0.6, not 0.099 times 3.
\<close>

theorem C8_layout_counterexample:
  "build_2x2_fig (no_own_domains\<lparr>own_xaxis := Some (0, 1 / 5)\<rparr>) [[Some (5 / 2), None]] [[Some (1 / 2)]]
     = Inr \<lparr>r_left_range = (0, 3), r_bottom_range = (0, 1),
            r_domains = \<lparr>dom_xaxis = (0, 3 / 5),
                          dom_xaxis2 = (61 / 100, 1), dom_xaxis3 = (61 / 100, 1),
                          dom_yaxis = (109 / 1000, 1), dom_yaxis2 = (109 / 1000, 1),
                          dom_yaxis3 = (0, 99 / 1000)\<rparr>\<rparr>
   \<and> (3 / 5 :: rat) \<noteq> 99 / 1000 * (of_int 3 / of_int (min 3 1))"
proof -
  have "\<lfloor>5 / 2 :: rat\<rfloor> = 2" "\<lfloor>1 / 2 :: rat\<rfloor> = 0"
    by (simp_all add: floor_eq_iff)
  then show ?thesis
    by (simp add: build_2x2_fig_def no_own_domains_def numbers_def
        py_int_def union_domains_def base_domains_def or_default_def Let_def)
qed

text \<open>
  C8 (amended): in the two-track layout built by \<open>_build_2x2_fig\<close>, the upper bound of the
  left track's x-axis domain equals the upper bound of the \<open>xaxis\<close> domain of the merged
  layout (the base 0.099, unless the drawable's own layout sets an \<open>xaxis\<close> domain) scaled
  by the ratio of the left track's extent to the minimum of the left and bottom track
  extents, and the x domains of the main panel and of the bottom track begin 0.01 above
  that scaled bound; symmetrically the upper bound of the bottom track's y-axis domain is
  the upper bound of the merged \<open>yaxis3\<close> domain (the base 0.099 unless set) scaled by the
  bottom-to-minimum extent ratio, with the panels above starting 0.01 higher. The layout
  is built whenever every trace of the two tracks holds at least one number.
\<close>

theorem C8_layout_proportional:
  assumes "\<forall>x \<in> set left_xs. numbers x \<noteq> []" "\<forall>y \<in> set bottom_ys. numbers y \<noteq> []"
  shows "\<exists>fig. build_2x2_fig own left_xs bottom_ys = Inr fig
    \<and> snd (r_left_range fig) = track_extent left_xs
    \<and> snd (r_bottom_range fig) = track_extent bottom_ys
    \<and> snd (dom_xaxis (r_domains fig)) =
        snd (or_default (own_xaxis own) (0, 99 / 1000))
          * (of_int (track_extent left_xs)
              / of_int (min (track_extent left_xs) (track_extent bottom_ys)))
    \<and> dom_xaxis2 (r_domains fig) = (snd (dom_xaxis (r_domains fig)) + 1 / 100, 1)
    \<and> dom_xaxis3 (r_domains fig) = (snd (dom_xaxis (r_domains fig)) + 1 / 100, 1)
    \<and> snd (dom_yaxis3 (r_domains fig)) =
        snd (or_default (own_yaxis3 own) (0, 99 / 1000))
          * (of_int (track_extent bottom_ys)
              / of_int (min (track_extent left_xs) (track_extent bottom_ys)))
    \<and> dom_yaxis (r_domains fig) = (snd (dom_yaxis3 (r_domains fig)) + 1 / 100, 1)
    \<and> dom_yaxis2 (r_domains fig) = (snd (dom_yaxis3 (r_domains fig)) + 1 / 100, 1)
    \<and> (own_xaxis own = None \<longrightarrow>
          snd (dom_xaxis (r_domains fig)) =
            99 / 1000 * (of_int (track_extent left_xs)
              / of_int (min (track_extent left_xs) (track_extent bottom_ys))))
    \<and> (own_yaxis3 own = None \<longrightarrow>
          snd (dom_yaxis3 (r_domains fig)) =
            99 / 1000 * (of_int (track_extent bottom_ys)
              / of_int (min (track_extent left_xs) (track_extent bottom_ys))))"
  unfolding build_2x2_fig_closed_form [OF assms]
  by (simp add: Let_def or_default_def)

theorem C8_layout_proportional_witness:
  "numbers [Some (5 / 2), None] \<noteq> [] \<and> numbers [Some 1] \<noteq> []
   \<and> numbers [Some (1 / 2)] \<noteq> []
   \<and> (\<exists>fig. build_2x2_fig no_own_domains [[Some (5 / 2), None], [Some 1]] [[Some (1 / 2)]] = Inr fig
        \<and> snd (dom_xaxis (r_domains fig)) = 297 / 1000
        \<and> dom_xaxis2 (r_domains fig) = (307 / 1000, 1)
        \<and> snd (dom_yaxis3 (r_domains fig)) = 99 / 1000
        \<and> dom_yaxis (r_domains fig) = (109 / 1000, 1))"
proof -
  have l: "\<forall>x \<in> set [[Some (5 / 2), None], [Some 1]]. numbers x \<noteq> []"
    by (simp add: numbers_def)
  have b: "\<forall>y \<in> set [[Some (1 / 2 :: rat)]]. numbers y \<noteq> []"
    by (simp add: numbers_def)
  have fl: "\<lfloor>5 / 2 :: rat\<rfloor> = 2" "\<lfloor>1 / 2 :: rat\<rfloor> = 0"
    by (simp_all add: floor_eq_iff)
  have el: "track_extent [[Some (5 / 2), None], [Some 1]] = 3"
    by (simp add: track_extent_def numbers_def py_int_def fl)
  have eb: "track_extent [[Some (1 / 2)]] = 1"
    by (simp add: track_extent_def numbers_def py_int_def fl)
  from C8_layout_proportional [OF l b, of no_own_domains]
  obtain fig where
    "build_2x2_fig no_own_domains [[Some (5 / 2), None], [Some 1]] [[Some (1 / 2)]] = Inr fig"
    "snd (dom_xaxis (r_domains fig)) = 297 / 1000"
    "dom_xaxis2 (r_domains fig) = (307 / 1000, 1)"
    "snd (dom_yaxis3 (r_domains fig)) = 99 / 1000"
    "dom_yaxis (r_domains fig) = (109 / 1000, 1)"
    by (auto simp: el eb no_own_domains_def or_default_def)
  moreover have "numbers [Some (5 / 2), None] \<noteq> []" "numbers [Some 1] \<noteq> []"
    "numbers [Some (1 / 2)] \<noteq> []"
    by (simp_all add: numbers_def)
  ultimately show ?thesis by blast
qed

end
